theory Spec2Isabelle
  imports Main "HOL-Library.Word" "HOL-Library.Sublist"
begin

section \<open>Strings and JavaScript values\<close>

text \<open>
  A JavaScript string is a sequence of 16-bit code units. ASCII literals of the source are
  written \<open>str ''...''\<close>; the Hebrew and emoji literals are written as their code units.
\<close>

type_synonym jsstring = "16 word list"

definition str :: "string \<Rightarrow> jsstring" where
  "str s = map of_char s"

text \<open>The backslash, which a HOL string literal cannot hold.\<close>

definition backslash :: jsstring where
  "backslash = [0x5C]"

text \<open>
  Truthiness of an optional string (\<open>undefined\<close>, \<open>null\<close> and \<open>''\<close> are falsy), and the
  idiom \<open>x || d\<close>.
\<close>

definition truthy :: "jsstring option \<Rightarrow> bool" where
  "truthy x = (case x of None \<Rightarrow> False | Some v \<Rightarrow> v \<noteq> [])"

definition or_else :: "jsstring option \<Rightarrow> jsstring \<Rightarrow> jsstring" where
  "or_else x d = (case x of None \<Rightarrow> d | Some v \<Rightarrow> if v = [] then d else v)"

text \<open>\<open>x || null\<close> on a string: the empty string becomes \<open>null\<close>.\<close>

definition or_null :: "jsstring \<Rightarrow> jsstring option" where
  "or_null v = (if v = [] then None else Some v)"

text \<open>A template literal prints an absent value as \<open>undefined\<close>.\<close>

definition template :: "jsstring option \<Rightarrow> jsstring" where
  "template x = (case x of None \<Rightarrow> str ''undefined'' | Some v \<Rightarrow> v)"

text \<open>\<open>String.prototype.includes\<close>: a case-sensitive search for a contiguous occurrence.\<close>

fun includes_str :: "jsstring \<Rightarrow> jsstring \<Rightarrow> bool" where
  "includes_str [] sub = (sub = [])"
| "includes_str (c # cs) sub = (prefix sub (c # cs) \<or> includes_str cs sub)"

text \<open>\<open>s.substring(0, n)\<close> for \<open>n\<close> a non-negative literal.\<close>

definition substring0 :: "jsstring \<Rightarrow> nat \<Rightarrow> jsstring" where
  "substring0 s n = take n s"

text \<open>
  \<open>String.prototype.trim\<close> strips the ECMAScript white space and line terminator code
  units from both ends.
\<close>

definition is_ws :: "16 word \<Rightarrow> bool" where
  "is_ws c = (c \<in> {0x9, 0xA, 0xB, 0xC, 0xD, 0x20, 0xA0, 0x1680, 0x2028, 0x2029, 0x202F,
                    0x205F, 0x3000, 0xFEFF} \<or> (0x2000 \<le> c \<and> c \<le> 0x200A))"

definition trim :: "jsstring \<Rightarrow> jsstring" where
  "trim s = rev (dropWhile is_ws (rev (dropWhile is_ws s)))"

text \<open>Decimal rendering of a number inside a template literal (integers only).\<close>

fun digits :: "nat \<Rightarrow> jsstring" where
  "digits n = (if n < 10 then [of_nat (48 + n)] else digits (n div 10) @ [of_nat (48 + n mod 10)])"

declare digits.simps [simp del]

definition num_to_string :: "int \<Rightarrow> jsstring" where
  "num_to_string i = (if i < 0 then str ''-'' @ digits (nat (- i)) else digits (nat i))"

text \<open>
  The in-place update of the first element that satisfies a test: what
  \<open>xs[xs.findIndex(p)] = v\<close> and a mutation of \<open>xs.find(p)\<close> do.
\<close>

fun update_first :: "('a \<Rightarrow> bool) \<Rightarrow> ('a \<Rightarrow> 'a) \<Rightarrow> 'a list \<Rightarrow> 'a list" where
  "update_first p f [] = []"
| "update_first p f (x # xs) = (if p x then f x # xs else x # update_first p f xs)"

text \<open>
  Property lookup \<open>obj[key]\<close> on an object written as a literal or parsed from JSON: an
  own property wins; otherwise the prototype chain is searched, and these are the names
  every such object inherits from \<open>Object.prototype\<close> (all of them truthy values:
  functions, and for \<open>__proto__\<close> the prototype object itself); otherwise the result is
  \<open>undefined\<close>. The key \<open>undefined\<close> is looked up as the string \<open>undefined\<close>.
\<close>

definition object_prototype_keys :: "jsstring list" where
  "object_prototype_keys =
     map str [''constructor'', ''__defineGetter__'', ''__defineSetter__'', ''hasOwnProperty'',
              ''__lookupGetter__'', ''__lookupSetter__'', ''isPrototypeOf'',
              ''propertyIsEnumerable'', ''toString'', ''valueOf'', ''__proto__'',
              ''toLocaleString'']"

definition inherited :: "jsstring \<Rightarrow> bool" where
  "inherited k = (k \<in> set object_prototype_keys)"

datatype 'a property = Own 'a | FromPrototype jsstring | Undefined

definition get_property :: "(jsstring \<rightharpoonup> 'a) \<Rightarrow> jsstring \<Rightarrow> 'a property" where
  "get_property obj k =
     (case obj k of
        Some v \<Rightarrow> Own v
      | None \<Rightarrow> if inherited k then FromPrototype k else Undefined)"

definition property_key :: "jsstring option \<Rightarrow> jsstring" where
  "property_key k = (case k of None \<Rightarrow> str ''undefined'' | Some x \<Rightarrow> x)"

section \<open>Data model\<close>

text \<open>
  A task as the dashboard reads it from the registry JSON, from the sample data or from the
  new-task form. Optional properties are options; \<open>null\<close> and an absent property are both
  \<open>None\<close>, which the code never distinguishes (it only tests truthiness). \<open>retry_count\<close> is
  carried by the registry JSON; the dashboard never reads it.
\<close>

record schedule =
  sched_type :: jsstring
  sched_time :: jsstring

record task =
  task_id :: jsstring
  source :: jsstring
  task_type :: jsstring
  subject :: jsstring
  description :: "jsstring option"
  working_dir :: "jsstring option"
  status :: jsstring
  created :: "jsstring option"
  last_updated :: "jsstring option"
  last_result :: "jsstring option"
  retry_count :: "nat option"
  assigned_skill :: "jsstring option"
  assigned_agent :: "jsstring option"
  project :: "jsstring option"
  project_name :: "jsstring option"
  session_id :: "jsstring option"
  task_schedule :: "schedule option"
  is_local :: bool
  pendingSync :: bool

record toast =
  message :: jsstring
  toast_kind :: jsstring

text \<open>
  The page elements \<open>totalTasks\<close>, \<open>pendingTasks\<close>, \<open>failedTasks\<close> and \<open>completedTasks\<close>
  and the warning class of the health banner, which \<open>updateStatistics\<close> writes.
\<close>

record counters =
  el_totalTasks :: nat
  el_pendingTasks :: nat
  el_failedTasks :: nat
  el_completedTasks :: nat
  banner_warning :: bool

record by_status =
  n_pending :: nat
  n_in_progress :: nat
  n_completed :: nat
  n_failed :: nat

text \<open>
  A statistics object. A count that is absent from the JSON is read through \<open>|| 0\<close>, so it
  is represented by \<open>0\<close>; \<open>by_status\<close> itself may be absent (\<open>?.\<close>).
\<close>

record stats =
  total :: nat
  stats_by_status :: "by_status option"

text \<open>
  An item of \<open>localStorage\<close>: absent, present but not parseable into the expected shape
  (\<open>JSON.parse\<close> or the first property access throws), or a well-formed value.
\<close>

datatype 'a item = Missing | Corrupt | Item 'a

text \<open>
  The stored assignments: an object keyed by task id whose values are objects keyed by
  assignment type. Both levels are maps of own properties.
\<close>

type_synonym assignments = "jsstring \<rightharpoonup> (jsstring \<rightharpoonup> jsstring)"

record filters =
  f_source :: jsstring
  f_status :: jsstring
  f_search :: jsstring

record app_state =
  tasks :: "task list"
  serverAvailable :: bool
  toasts :: "toast list"
  shown :: counters
  run_modal :: "(jsstring \<times> jsstring) option"
  ls_assignments :: "assignments item"
  ls_pending :: "task list item"
  ls_full :: bool
  state_filters :: filters
  viewMode :: jsstring
  lastCheck :: "jsstring option"

text \<open>
  \<open>ls_full\<close> says that \<open>localStorage.setItem\<close> throws (quota exceeded, storage disabled);
  \<open>run_modal\<close> is the subject and the command shown by \<open>showRunTaskModal\<close>; \<open>lastCheck\<close> is
  the timestamp whose relative time the \<open>lastCheck\<close> element shows.
\<close>

text \<open>\<open>JSON.parse(localStorage.getItem(key) || dflt)\<close>; \<open>None\<close> when it throws.\<close>

definition parse_item :: "'a \<Rightarrow> 'a item \<Rightarrow> 'a option" where
  "parse_item dflt it = (case it of Missing \<Rightarrow> Some dflt | Corrupt \<Rightarrow> None | Item x \<Rightarrow> Some x)"

definition showToast :: "jsstring \<Rightarrow> jsstring \<Rightarrow> app_state \<Rightarrow> app_state" where
  "showToast msg kind s = s\<lparr>toasts := toasts s @ [\<lparr>message = msg, toast_kind = kind\<rparr>]\<rparr>"

section \<open>Health analysis\<close>

record issue =
  issue_task :: jsstring
  issue_name :: jsstring
  suggestion :: jsstring

record health_results =
  h_total :: nat
  h_pending :: nat
  h_in_progress :: nat
  h_completed :: nat
  h_failed :: nat
  failedTasks :: "task list"
  timestamp :: jsstring
  fixesAttempted :: nat
  fixesSuccessful :: nat
  issues :: "issue list"

text \<open>The body of the \<open>forEach\<close> over the failed tasks: at most one issue is pushed.\<close>

definition analyze_step :: "issue list \<Rightarrow> task \<Rightarrow> issue list" where
  "analyze_step acc t =
     (case last_result t of
        None \<Rightarrow> acc
      | Some r \<Rightarrow>
          if r = [] then acc
          else if includes_str r (str ''claude'') \<and> includes_str r (str ''not'') then
            acc @ [\<lparr>issue_task = subject t, issue_name = str ''Claude path not found'',
                    suggestion = str ''Use full path: C:'' @ backslash @ str ''Users'' @ backslash @
                      str ''user'' @ backslash @ str ''.local'' @ backslash @ str ''bin'' @
                      backslash @ str ''claude.exe''\<rparr>]
          else if includes_str r (str ''permission'') then
            acc @ [\<lparr>issue_task = subject t, issue_name = str ''Permission denied'',
                    suggestion = str ''Run as administrator or check file permissions''\<rparr>]
          else
            acc @ [\<lparr>issue_task = subject t, issue_name = str ''Unknown error'',
                    suggestion = substring0 r 100\<rparr>])"

definition analyzeTaskHealth :: "jsstring \<Rightarrow> app_state \<Rightarrow> health_results" where
  "analyzeTaskHealth now_iso s =
     (let ts = tasks s;
          failed_ts = filter (\<lambda>t. status t = str ''failed'') ts
      in \<lparr>h_total = length ts,
          h_pending = length (filter (\<lambda>t. status t = str ''pending'') ts),
          h_in_progress = length (filter (\<lambda>t. status t = str ''in_progress'') ts),
          h_completed = length (filter (\<lambda>t. status t = str ''completed'') ts),
          h_failed = length (filter (\<lambda>t. status t = str ''failed'') ts),
          failedTasks = failed_ts,
          timestamp = now_iso,
          fixesAttempted = 0,
          fixesSuccessful = 0,
          issues = foldl analyze_step [] failed_ts\<rparr>)"

text \<open>
  The spec's wording of the matcher, for comparison with the code: the same search after
  folding the ASCII letters of both strings to lower case.
\<close>

definition to_lower_ascii :: "16 word \<Rightarrow> 16 word" where
  "to_lower_ascii c = (if 0x41 \<le> c \<and> c \<le> 0x5A then c + 0x20 else c)"

definition spec_includes_ci :: "jsstring \<Rightarrow> jsstring \<Rightarrow> bool" where
  "spec_includes_ci s sub = includes_str (map to_lower_ascii s) (map to_lower_ascii sub)"

section \<open>Statistics and sample data\<close>

text \<open>\<open>updateStatistics\<close>: nothing happens without a statistics object.\<close>

definition updateStatistics :: "stats option \<Rightarrow> app_state \<Rightarrow> app_state" where
  "updateStatistics st s =
     (case st of
        None \<Rightarrow> s
      | Some x \<Rightarrow>
          (let bs = stats_by_status x;
               p = (case bs of None \<Rightarrow> 0 | Some b \<Rightarrow> n_pending b);
               ip = (case bs of None \<Rightarrow> 0 | Some b \<Rightarrow> n_in_progress b);
               failedCount = (case bs of None \<Rightarrow> 0 | Some b \<Rightarrow> n_failed b);
               c = (case bs of None \<Rightarrow> 0 | Some b \<Rightarrow> n_completed b)
           in s\<lparr>shown := \<lparr>el_totalTasks = total x, el_pendingTasks = p + ip,
                           el_failedTasks = failedCount, el_completedTasks = c,
                           banner_warning = (failedCount > 0)\<rparr>\<rparr>))"

definition sampleTasks :: "task list" where
  "sampleTasks =
    [\<lparr>task_id = str ''sched_SkillsCheatSheet'', source = str ''scheduled'',
      task_type = str ''scheduled'',
      subject = [0x5D9, 0x5E6, 0x5D9, 0x5E8, 0x5EA, 0x20, 0x5EA, 0x5DE, 0x5D5, 0x5E0, 0x5EA,
                 0x20, 0x5E6, 0x27, 0x5D9, 0x5D8, 0x2D, 0x5E9, 0x5D9, 0x5D8, 0x20, 0x5DC,
                 0x5DB, 0x5D9, 0x5E9, 0x5D5, 0x5E8, 0x5D9, 0x5DD],
      description = None, working_dir = None, status = str ''failed'',
      created = None, last_updated = None,
      last_result = Some (str ''claude not found in PATH''), retry_count = None,
      assigned_skill = None, assigned_agent = None, project = None, project_name = None,
      session_id = None,
      task_schedule = Some \<lparr>sched_type = str ''once'', sched_time = str ''2026-01-29T23:16:04''\<rparr>,
      is_local = False, pendingSync = False\<rparr>,
     \<lparr>task_id = str ''session_italy_1'', source = str ''session'', task_type = str ''task'',
      subject = [0x5D7, 0x5D9, 0x5E4, 0x5D5, 0x5E9, 0x20, 0x5D8, 0x5D9, 0x5E1, 0x5D5, 0x5EA,
                 0x20, 0x54, 0x4C, 0x56, 0x2192, 0x52, 0x6F, 0x6D, 0x65],
      description = None, working_dir = None, status = str ''pending'',
      created = None, last_updated = None, last_result = None, retry_count = None,
      assigned_skill = None, assigned_agent = None, project = Some (str ''Italy 2026''),
      project_name = None, session_id = None, task_schedule = None, is_local = False,
      pendingSync = False\<rparr>,
     \<lparr>task_id = str ''session_italy_2'', source = str ''session'', task_type = str ''task'',
      subject = [0x5D4, 0x5D6, 0x5DE, 0x5E0, 0x5EA, 0x20, 0x5DE, 0x5DC, 0x5D5, 0x5DF, 0x20,
                 0x5D1, 0x5E4, 0x5D9, 0x5E8, 0x5E0, 0x5E6, 0x5D4],
      description = None, working_dir = None, status = str ''completed'',
      created = None, last_updated = None, last_result = None, retry_count = None,
      assigned_skill = None, assigned_agent = None, project = Some (str ''Italy 2026''),
      project_name = None, session_id = None, task_schedule = None, is_local = False,
      pendingSync = False\<rparr>]"

text \<open>A state with nothing loaded, as the page starts.\<close>

definition initial_state :: app_state where
  "initial_state =
     \<lparr>tasks = [], serverAvailable = False, toasts = [],
      shown = \<lparr>el_totalTasks = 0, el_pendingTasks = 0, el_failedTasks = 0, el_completedTasks = 0,
               banner_warning = False\<rparr>,
      run_modal = None, ls_assignments = Missing, ls_pending = Missing, ls_full = False,
      state_filters = \<lparr>f_source = str ''all'', f_status = str ''all'', f_search = []\<rparr>,
      viewMode = str ''board'', lastCheck = None\<rparr>"

section \<open>Display lookups\<close>

record status_info =
  si_text :: jsstring
  si_icon :: jsstring
  si_class :: jsstring

record source_info =
  so_text :: "jsstring option"
  so_icon :: jsstring

definition statuses :: "jsstring \<rightharpoonup> status_info" where
  "statuses =
     [str ''pending'' \<mapsto> \<lparr>si_text = [0x5DE, 0x5DE, 0x5EA, 0x5D9, 0x5DF], si_icon = [0x23F3],
                          si_class = str ''pending''\<rparr>,
      str ''in_progress'' \<mapsto> \<lparr>si_text = [0x5D1, 0x5D1, 0x5D9, 0x5E6, 0x5D5, 0x5E2],
                              si_icon = [0xD83D, 0xDD04], si_class = str ''in_progress''\<rparr>,
      str ''completed'' \<mapsto> \<lparr>si_text = [0x5D4, 0x5D5, 0x5E9, 0x5DC, 0x5DD], si_icon = [0x2705],
                            si_class = str ''completed''\<rparr>,
      str ''failed'' \<mapsto> \<lparr>si_text = [0x5E0, 0x5DB, 0x5E9, 0x5DC], si_icon = [0x274C],
                         si_class = str ''failed''\<rparr>]"

text \<open>\<open>statuses[status] || statuses.pending\<close>: the fallback is taken when the lookup is falsy.\<close>

definition getStatusInfo :: "jsstring option \<Rightarrow> status_info property" where
  "getStatusInfo st =
     (case get_property statuses (property_key st) of
        Undefined \<Rightarrow> get_property statuses (str ''pending'')
      | found \<Rightarrow> found)"

definition sources :: "jsstring \<rightharpoonup> source_info" where
  "sources =
     [str ''scheduled'' \<mapsto> \<lparr>so_text = Some [0x5DE, 0x5EA, 0x5D5, 0x5D6, 0x5DE, 0x5DF],
                            so_icon = [0xD83D, 0xDCC5]\<rparr>,
      str ''session'' \<mapsto> \<lparr>so_text = Some [0x5E1, 0x5E9, 0x5DF], so_icon = [0xD83D, 0xDCCB]\<rparr>,
      str ''project'' \<mapsto> \<lparr>so_text = Some [0x5E4, 0x5E8, 0x5D5, 0x5D9, 0x5E7, 0x5D8],
                          so_icon = [0xD83D, 0xDCC1]\<rparr>]"

definition getSourceInfo :: "jsstring option \<Rightarrow> source_info property" where
  "getSourceInfo src =
     (case get_property sources (property_key src) of
        Undefined \<Rightarrow> Own \<lparr>so_text = src, so_icon = [0xD83D, 0xDCC4]\<rparr>
      | found \<Rightarrow> found)"

section \<open>Assignments and local drafts in localStorage\<close>

text \<open>
  \<open>saveTaskAssignment\<close>. When \<open>taskId\<close> names a property that the parsed object inherits and
  does not own, \<open>assignments[taskId]\<close> is truthy, no own entry is created, and the write or
  delete lands on a built-in object: the parsed object, and so the stored JSON, keep their
  own properties. (What a polluted built-in does to later lookups is outside this model.)
  Assigning a string to \<open>__proto__\<close> or deleting it on a plain object changes nothing.
\<close>

definition saveTaskAssignment ::
  "jsstring \<Rightarrow> jsstring \<Rightarrow> jsstring option \<Rightarrow> app_state \<Rightarrow> app_state" where
  "saveTaskAssignment taskId ty val s =
     (case parse_item Map.empty (ls_assignments s) of
        None \<Rightarrow> showToast (str ''Failed to save assignment'') (str ''error'') s
      | Some a \<Rightarrow>
          (let a1 = (if get_property a taskId = Undefined then a(taskId \<mapsto> Map.empty) else a);
               a2 = (case a1 taskId of
                       None \<Rightarrow> a1
                     | Some e \<Rightarrow>
                         if ty = str ''__proto__'' then a1
                         else (case val of
                                 None \<Rightarrow> a1(taskId \<mapsto> e(ty := None))
                               | Some v \<Rightarrow> a1(taskId \<mapsto> e(ty \<mapsto> v))))
           in if ls_full s then showToast (str ''Failed to save assignment'') (str ''error'') s
              else s\<lparr>ls_assignments := Item a2\<rparr>))"

text \<open>The body of the \<open>forEach\<close> of \<open>loadTaskAssignments\<close>, on one task.\<close>

definition apply_assignment :: "assignments \<Rightarrow> task \<Rightarrow> task" where
  "apply_assignment a t =
     (case a (task_id t) of
        None \<Rightarrow> t
      | Some e \<Rightarrow>
          (let t1 = (if truthy (e (str ''skill''))
                     then t\<lparr>assigned_skill := e (str ''skill'')\<rparr> else t)
           in if truthy (e (str ''agent''))
              then t1\<lparr>assigned_agent := e (str ''agent'')\<rparr> else t1))"

definition loadTaskAssignments :: "app_state \<Rightarrow> app_state" where
  "loadTaskAssignments s =
     (case parse_item Map.empty (ls_assignments s) of
        None \<Rightarrow> s
      | Some a \<Rightarrow> s\<lparr>tasks := map (apply_assignment a) (tasks s)\<rparr>)"

text \<open>
  \<open>loadPendingLocalTasks\<close>: each stored draft is marked local, and put in front of the list
  unless a task with its id is there already.
\<close>

definition merge_pending :: "task list \<Rightarrow> task \<Rightarrow> task list" where
  "merge_pending ts d =
     (let d' = d\<lparr>is_local := True, pendingSync := True\<rparr>
      in if (\<exists>t \<in> set ts. task_id t = task_id d') then ts else d' # ts)"

definition loadPendingLocalTasks :: "app_state \<Rightarrow> app_state" where
  "loadPendingLocalTasks s =
     (case parse_item [] (ls_pending s) of
        None \<Rightarrow> s
      | Some pendingTasks \<Rightarrow>
          if length pendingTasks > 0
          then s\<lparr>tasks := foldl merge_pending (tasks s) pendingTasks\<rparr>
          else s)"

definition saveTaskLocally :: "task \<Rightarrow> app_state \<Rightarrow> app_state" where
  "saveTaskLocally t s =
     (case parse_item [] (ls_pending s) of
        None \<Rightarrow> showToast (str ''Failed to save task locally'') (str ''error'') s
      | Some pendingTasks \<Rightarrow>
          (let ps = (if (\<exists>x \<in> set pendingTasks. task_id x = task_id t)
                     then update_first (\<lambda>x. task_id x = task_id t) (\<lambda>_. t) pendingTasks
                     else pendingTasks @ [t])
           in if ls_full s then showToast (str ''Failed to save task locally'') (str ''error'') s
              else s\<lparr>ls_pending := Item ps\<rparr>))"

section \<open>Creating a task\<close>

text \<open>
  What \<open>saveNewTask\<close> reads from the form: for each element, \<open>None\<close> when the element is
  not in the page, else its value; \<open>scheduleChecked\<close> is the value of the checked
  \<open>schedule\<close> radio button, if one is checked.
\<close>

record new_task_form =
  titleEl :: "jsstring option"
  descEl :: "jsstring option"
  workingDirEl :: "jsstring option"
  agentEl :: "jsstring option"
  skillEl :: "jsstring option"
  scheduleChecked :: "jsstring option"
  scheduleTimeEl :: "jsstring option"

text \<open>
  The clock readings of one call: \<open>Date.now()\<close> and the two \<open>new Date().toISOString()\<close>.
\<close>

record clock =
  date_now :: int
  iso_created :: jsstring
  iso_updated :: jsstring

definition el_value :: "jsstring option \<Rightarrow> jsstring" where
  "el_value el = (case el of None \<Rightarrow> [] | Some v \<Rightarrow> v)"

definition el_trimmed :: "jsstring option \<Rightarrow> jsstring" where
  "el_trimmed el = (case el of None \<Rightarrow> [] | Some v \<Rightarrow> trim v)"

text \<open>The statistics object that \<open>saveNewTask\<close> builds from \<open>state.tasks\<close>.\<close>

definition newTaskStats :: "task list \<Rightarrow> stats" where
  "newTaskStats ts =
     \<lparr>total = length ts,
      stats_by_status = Some
        \<lparr>n_pending = length (filter (\<lambda>t. status t = str ''pending'') ts),
         n_in_progress = length (filter (\<lambda>t. status t = str ''in_progress'') ts),
         n_completed = length (filter (\<lambda>t. status t = str ''completed'') ts),
         n_failed = length (filter (\<lambda>t. status t = str ''failed'') ts)\<rparr>\<rparr>"

definition newTask :: "clock \<Rightarrow> new_task_form \<Rightarrow> task" where
  "newTask clk f =
     (let scheduleType = or_else (scheduleChecked f) (str ''now'');
          scheduleTime = el_value (scheduleTimeEl f)
      in \<lparr>task_id = str ''local_'' @ num_to_string (date_now clk),
          source = (if scheduleType = str ''later'' then str ''scheduled'' else str ''session''),
          task_type = str ''task'',
          subject = el_trimmed (titleEl f),
          description = Some (el_trimmed (descEl f)),
          working_dir = Some (el_trimmed (workingDirEl f)),
          status = str ''pending'',
          created = Some (iso_created clk),
          last_updated = Some (iso_updated clk),
          last_result = None,
          retry_count = None,
          assigned_skill = or_null (el_value (skillEl f)),
          assigned_agent = or_null (el_value (agentEl f)),
          project = Some (str ''Local Tasks''),
          project_name = Some (str ''Local Tasks''),
          session_id = None,
          task_schedule = (if scheduleType = str ''later'' \<and> scheduleTime \<noteq> []
                           then Some \<lparr>sched_type = str ''once'', sched_time = scheduleTime\<rparr>
                           else None),
          is_local = True,
          pendingSync = True\<rparr>)"

text \<open>
  \<open>saveNewTask\<close>. The task list, the store and the counters are written before the page is
  rendered again; the rendering, the clearing of the form and the closing of the dialog are
  page output, and the state below is the one reached when the rendering does not throw.
\<close>

definition saveNewTask :: "clock \<Rightarrow> new_task_form \<Rightarrow> app_state \<Rightarrow> app_state" where
  "saveNewTask clk f s =
     (if titleEl f = None then showToast (str ''Form not found'') (str ''error'') s
      else if el_trimmed (titleEl f) = [] then
        showToast (str ''Please enter a task title'') (str ''warning'') s
      else if el_trimmed (workingDirEl f) = [] then
        showToast (str ''Working directory is required!'') (str ''warning'') s
      else
        (let s1 = saveTaskLocally (newTask clk f) s;
             s2 = s1\<lparr>tasks := newTask clk f # tasks s1\<rparr>;
             s3 = updateStatistics (Some (newTaskStats (tasks s2))) s2
         in showToast (str ''Task created successfully!'') (str ''success'') s3))"

section \<open>Starting a task\<close>

definition default_working_dir :: jsstring where
  "default_working_dir =
     str ''C:'' @ backslash @ str ''Users'' @ backslash @ str ''user'' @ backslash @ str ''Desktop''"

record run_request =
  req_taskId :: jsstring
  req_task :: jsstring
  req_workingDir :: jsstring
  req_skill :: "jsstring option"

definition run_request_of :: "task \<Rightarrow> run_request" where
  "run_request_of t =
     \<lparr>req_taskId = task_id t,
      req_task = or_else (description t) (subject t),
      req_workingDir = or_else (working_dir t) default_working_dir,
      req_skill = assigned_skill t\<rparr>"

text \<open>\<open>.replace(/"/g, '\\"')\<close>: a backslash goes in front of every double quote.\<close>

definition escape_quotes :: "jsstring \<Rightarrow> jsstring" where
  "escape_quotes s = concat (map (\<lambda>c. if c = 0x22 then [0x5C, 0x22] else [c]) s)"

text \<open>The command shown when the local server is not available.\<close>

definition manual_command :: "task \<Rightarrow> jsstring" where
  "manual_command t =
     (let workingDir = or_else (working_dir t) default_working_dir;
          skill = (if truthy (assigned_skill t)
                   then str ''--skill '' @ template (assigned_skill t) else []);
          taskDesc = escape_quotes (or_else (description t) (subject t))
      in trim (str ''node ~/.claude/command-center/scripts/run-task.js '' @ [0x22] @ taskDesc @
               [0x22] @ str '' --dir '' @ [0x22] @ workingDir @ [0x22] @ str '' '' @ skill))"

text \<open>
  What comes back from \<open>POST /api/run-task\<close>: the \<open>fetch\<close>, the parsing of the body or the
  reading of the result throws (with this \<open>error.message\<close>), or there is a result object,
  of which the code reads the truthiness of \<open>success\<close>, and \<open>runId\<close> and \<open>error\<close>.
\<close>

record run_result =
  success :: bool
  runId :: "jsstring option"
  run_error :: "jsstring option"

datatype run_reply = Throws jsstring | Reply run_result

text \<open>
  \<open>startTask\<close>, read as one step. On success the task is written before the page is rendered
  again; the state below is the one reached when that rendering does not throw.
\<close>

definition startTask ::
  "(run_request \<Rightarrow> run_reply) \<Rightarrow> jsstring \<Rightarrow> jsstring \<Rightarrow> app_state \<Rightarrow> app_state" where
  "startTask server now_iso taskId s =
     (case find (\<lambda>t. task_id t = taskId) (tasks s) of
        None \<Rightarrow> s
      | Some task \<Rightarrow>
          if serverAvailable s then
            (let s1 = showToast (str ''Starting task...'') (str ''info'') s
             in case server (run_request_of task) of
                  Throws msg \<Rightarrow> showToast (str ''Server error: '' @ msg) (str ''error'') s1
                | Reply result \<Rightarrow>
                    if success result then
                      (let s2 = showToast (str ''Task started! Run ID: '' @ template (runId result))
                                  (str ''success'') s1
                       in s2\<lparr>tasks := update_first (\<lambda>t. task_id t = taskId)
                                       (\<lambda>t. t\<lparr>status := str ''in_progress'',
                                               last_updated := Some now_iso\<rparr>)
                                       (tasks s2)\<rparr>)
                    else showToast (str ''Failed: '' @ template (run_error result)) (str ''error'') s1)
          else s\<lparr>run_modal := Some (subject task, manual_command task)\<rparr>)"

section \<open>Rendering\<close>

text \<open>
  \<open>filterTasks\<close>. \<open>String.prototype.toLowerCase\<close>, whose Unicode case tables are not
  reproduced here, is the parameter \<open>lower\<close>.
\<close>

definition filterTasks :: "(jsstring \<Rightarrow> jsstring) \<Rightarrow> filters \<Rightarrow> task list \<Rightarrow> task list" where
  "filterTasks lower fl ts =
     filter (\<lambda>task.
        if f_source fl \<noteq> str ''all'' \<and> source task \<noteq> f_source fl then False
        else if f_status fl \<noteq> str ''all'' \<and> status task \<noteq> f_status fl then False
        else if f_search fl \<noteq> [] then
          (let searchLower = lower (f_search fl);
               matchSubject = includes_str (lower (subject task)) searchLower;
               matchProject = (case project task of None \<Rightarrow> False
                               | Some p \<Rightarrow> includes_str (lower p) searchLower);
               matchDesc = (case description task of None \<Rightarrow> False
                            | Some d \<Rightarrow> includes_str (lower d) searchLower)
           in matchSubject \<or> matchProject \<or> matchDesc)
        else True) ts"

text \<open>
  The two groupings build an object keyed by a string taken from the task and push the task
  onto the entry of its key. The entry is created when \<open>groups[key]\<close> is falsy. For a key
  that the object inherits, \<open>groups[key]\<close> is the inherited member: no entry is created, and
  the push throws a \<open>TypeError\<close>. Nothing else in the rendering throws, the elements of the
  page being there; what is rendered is page content and not part of the state.
\<close>

definition session_key :: "task \<Rightarrow> jsstring" where
  "session_key t =
     or_else (session_id t) (or_else (project t) (or_else (Some (source t)) (str ''general'')))"

definition groupTasksBySession_throws :: "task list \<Rightarrow> bool" where
  "groupTasksBySession_throws ts =
     (\<exists>t \<in> set ts. source t \<noteq> str ''scheduled'' \<and> inherited (session_key t))"

definition groupTasksBySource_throws :: "task list \<Rightarrow> bool" where
  "groupTasksBySource_throws ts =
     (\<exists>t \<in> set ts. inherited (or_else (Some (source t)) (str ''other'')))"

datatype exn = AbortError | OtherError

definition renderTasks :: "(jsstring \<Rightarrow> jsstring) \<Rightarrow> app_state \<Rightarrow> exn + app_state" where
  "renderTasks lower s =
     (let filteredTasks = filterTasks lower (state_filters s) (tasks s)
      in if length filteredTasks = 0 then Inr s
         else if viewMode s = str ''board'' then
           (if groupTasksBySession_throws filteredTasks then Inl OtherError else Inr s)
         else
           (if groupTasksBySource_throws filteredTasks then Inl OtherError else Inr s))"

section \<open>Loading the registry\<close>

definition loadSampleData :: "(jsstring \<Rightarrow> jsstring) \<Rightarrow> app_state \<Rightarrow> exn + app_state" where
  "loadSampleData lower s =
     renderTasks lower
       (updateStatistics
          (Some \<lparr>total = 3,
                 stats_by_status = Some \<lparr>n_pending = 1, n_in_progress = 0, n_completed = 1,
                                         n_failed = 1\<rparr>\<rparr>)
          (s\<lparr>tasks := sampleTasks\<rparr>))"

text \<open>
  A promise either never settles or settles after some milliseconds with an outcome.
  Awaiting it at time \<open>t0\<close> (counted from the moment the timer was set) gives the time and
  the outcome of the \<open>await\<close>. When the promise is tied to an abort signal that fires at
  \<open>deadline\<close>, it rejects with an \<open>AbortError\<close> at the deadline unless it has settled before;
  without a signal, awaiting a promise that never settles never returns (\<open>None\<close>).
\<close>

datatype 'a timed = Never | After nat 'a

definition await_signal ::
  "nat option \<Rightarrow> nat \<Rightarrow> 'a timed \<Rightarrow> (nat \<times> (exn + 'a)) option" where
  "await_signal deadline t0 p =
     (case p of
        Never \<Rightarrow> (case deadline of None \<Rightarrow> None | Some T \<Rightarrow> Some (T, Inl AbortError))
      | After d r \<Rightarrow>
          (case deadline of
             None \<Rightarrow> Some (t0 + d, Inr r)
           | Some T \<Rightarrow> if t0 + d < T then Some (t0 + d, Inr r) else Some (T, Inl AbortError)))"

text \<open>
  \<open>loadTasks\<close> sets a timer that aborts its \<open>AbortController\<close> after \<open>loadTimeoutMs\<close>, and
  passes the controller's signal to both \<open>fetch\<close> calls; reading the body of a response
  obtained under the signal is aborted by it as well. A \<open>fetch\<close> settles with a network
  error or with a response (its \<open>ok\<close> flag and its body, itself a promise); a body settles
  as malformed JSON, as \<open>null\<close> (on which \<open>data.tasks\<close> throws) or as a registry object.
\<close>

definition loadTimeoutMs :: nat where
  "loadTimeoutMs = 10000"

record registry =
  reg_tasks :: "task list option"
  reg_statistics :: "stats option"
  last_aggregated :: "jsstring option"

datatype body = Malformed | JsonNull | JsonData registry

datatype fetch_result = NetworkError | Response bool "body timed"

record load_env =
  fetch_data :: "fetch_result timed"
  fetch_parent :: "fetch_result timed"

text \<open>
  An \<open>await\<close> inside the \<open>try\<close> block, in state \<open>s\<close>: a rejection becomes the exception of
  the block, thrown in that state; a hang is a hang of the block.
\<close>

definition await_in_try ::
  "(nat \<times> (exn + 'a)) option \<Rightarrow> app_state \<Rightarrow>
   (nat \<Rightarrow> 'a \<Rightarrow> (nat \<times> (exn \<times> app_state + app_state)) option) \<Rightarrow>
   (nat \<times> (exn \<times> app_state + app_state)) option" where
  "await_in_try r s k =
     (case r of
        None \<Rightarrow> None
      | Some (t, Inl e) \<Rightarrow> Some (t, Inl (e, s))
      | Some (t, Inr v) \<Rightarrow> k t v)"

text \<open>
  The rest of the \<open>try\<close> block once the registry is parsed: the exception it throws with the
  state it has reached by then, or the state it ends in.
\<close>

definition show_registry ::
  "(jsstring \<Rightarrow> jsstring) \<Rightarrow> registry \<Rightarrow> app_state \<Rightarrow> exn \<times> app_state + app_state" where
  "show_registry lower d s =
     (let s1 = s\<lparr>tasks := (case reg_tasks d of None \<Rightarrow> [] | Some ts \<Rightarrow> ts)\<rparr>;
          s2 = loadTaskAssignments s1;
          s3 = loadPendingLocalTasks s2;
          s4 = updateStatistics (reg_statistics d) s3;
          s5 = (if truthy (last_aggregated d) then s4\<lparr>lastCheck := last_aggregated d\<rparr> else s4)
      in case renderTasks lower s5 of
           Inl e \<Rightarrow> Inl (e, s5)
         | Inr s6 \<Rightarrow> Inr s6)"

text \<open>
  The \<open>try\<close> block of \<open>loadTasks\<close>: \<open>None\<close> if it never finishes; otherwise the time at which
  its last \<open>await\<close> returned, and the exception thrown together with the state at the throw,
  or the state reached.
\<close>

definition load_try ::
  "(jsstring \<Rightarrow> jsstring) \<Rightarrow> load_env \<Rightarrow> app_state \<Rightarrow>
   (nat \<times> (exn \<times> app_state + app_state)) option" where
  "load_try lower env s =
     await_in_try (await_signal (Some loadTimeoutMs) 0 (fetch_data env)) s
       (\<lambda>t1 r1.
          case r1 of
            NetworkError \<Rightarrow> Some (t1, Inl (OtherError, s))
          | Response ok1 body1 \<Rightarrow>
              await_in_try
                (if \<not> ok1 then await_signal (Some loadTimeoutMs) t1 (fetch_parent env)
                 else Some (t1, Inr (Response ok1 body1))) s
                (\<lambda>t2 r2.
                   case r2 of
                     NetworkError \<Rightarrow> Some (t2, Inl (OtherError, s))
                   | Response ok b \<Rightarrow>
                       if \<not> ok then Some (t2, Inl (OtherError, s))
                       else await_in_try (await_signal (Some loadTimeoutMs) t2 b) s
                              (\<lambda>t3 parsed.
                                 case parsed of
                                   Malformed \<Rightarrow> Some (t3, Inl (OtherError, s))
                                 | JsonNull \<Rightarrow> Some (t3, Inl (OtherError, s))
                                 | JsonData d \<Rightarrow> Some (t3, show_registry lower d s))))"

definition load_timeout_message :: jsstring where
  "load_timeout_message =
     [0x5D8, 0x5E2, 0x5D9, 0x5E0, 0x5EA, 0x20, 0x5DE, 0x5E9, 0x5D9, 0x5DE, 0x5D5, 0x5EA, 0x20,
      0x5DC, 0x5E7, 0x5D7, 0x5D4, 0x20, 0x5D9, 0x5D5, 0x5EA, 0x5E8, 0x20, 0x5DE, 0x5D3, 0x5D9,
      0x20, 0x5D6, 0x5DE, 0x5DF]"

definition load_error_message :: jsstring where
  "load_error_message =
     [0x5E9, 0x5D2, 0x5D9, 0x5D0, 0x5D4, 0x20, 0x5D1, 0x5D8, 0x5E2, 0x5D9, 0x5E0, 0x5EA, 0x20,
      0x5DE, 0x5E9, 0x5D9, 0x5DE, 0x5D5, 0x5EA]"

text \<open>
  \<open>loadTasks\<close>: \<open>None\<close> if the call never completes; otherwise the time at which its last
  \<open>await\<close> returned, and the exception it lets out (\<open>Inl\<close>) or the state it ends in. The
  \<open>catch\<close> block runs in the state at the throw, and what it throws itself is let out.
\<close>

definition loadTasks ::
  "(jsstring \<Rightarrow> jsstring) \<Rightarrow> load_env \<Rightarrow> app_state \<Rightarrow> (nat \<times> (exn + app_state)) option" where
  "loadTasks lower env s =
     (case load_try lower env s of
        None \<Rightarrow> None
      | Some (t, Inr s') \<Rightarrow> Some (t, Inr s')
      | Some (t, Inl (e, s0)) \<Rightarrow>
          (let s1 = (if e = AbortError
                     then showToast load_timeout_message (str ''warning'') s0
                     else showToast load_error_message (str ''error'') s0)
           in Some (t, loadSampleData lower s1)))"

section \<open>Example inputs\<close>

text \<open>A filled-in form and a clock reading, used for the instances of the theorems below.\<close>

definition example_form :: new_task_form where
  "example_form =
     \<lparr>titleEl = Some (str '' Write report ''), descEl = Some (str ''weekly''),
      workingDirEl = Some (str ''C:/work''), agentEl = Some [], skillEl = Some (str ''docx''),
      scheduleChecked = Some (str ''later''), scheduleTimeEl = Some (str ''2026-02-01T09:00'')\<rparr>"

definition example_clock :: clock where
  "example_clock =
     \<lparr>date_now = 1769724964000, iso_created = str ''2026-01-29T22:16:04.000Z'',
      iso_updated = str ''2026-01-29T22:16:04.001Z''\<rparr>"

section \<open>Properties of the string helpers\<close>

lemma of_char_word16_inj: "inj (of_char :: char \<Rightarrow> 16 word)"
proof (rule injI)
  fix c d :: char
  assume eq: "(of_char c :: 16 word) = of_char d"
  have lt: "(of_char x :: nat) < 2 ^ 16" for x
    by (rule less_trans [OF nat_of_char_less_256]) simp
  have "unat (of_nat (of_char c :: nat) :: 16 word) = unat (of_nat (of_char d :: nat) :: 16 word)"
    using eq by (simp only: of_nat_of_char)
  then have "(of_char c :: nat) = of_char d"
    using lt [of c] lt [of d] by (simp add: unat_of_nat)
  then show "c = d" by simp
qed

lemma str_inject [simp]: "str a = str b \<longleftrightarrow> a = b"
  by (simp add: str_def inj_map_eq_map [OF of_char_word16_inj])

lemma str_Nil [simp]: "str a = [] \<longleftrightarrow> a = []" "[] = str a \<longleftrightarrow> a = []"
  by (auto simp: str_def)

lemma includes_str_sublist: "includes_str s sub = sublist sub s"
  by (induction s) (auto simp: sublist_Cons_right)

lemma includes_str_iff: "includes_str s sub \<longleftrightarrow> (\<exists>pre suf. s = pre @ sub @ suf)"
  by (simp add: includes_str_sublist sublist_def)

section \<open>Health analysis: classification and selection\<close>

lemma foldl_analyze_step:
  "foldl analyze_step acc ts = acc @ concat (map (analyze_step []) ts)"
proof (induction ts arbitrary: acc)
  case Nil
  show ?case by simp
next
  case (Cons t ts)
  have "analyze_step acc t = acc @ analyze_step [] t"
    by (simp add: analyze_step_def split: option.splits)
  with Cons show ?case by simp
qed

lemma issue_names_of_steps:
  "map issue_name (concat (map (analyze_step []) (filter P ts))) =
     map (\<lambda>t. let r = the (last_result t) in
            if sublist (str ''claude'') r \<and> sublist (str ''not'') r
              then str ''Claude path not found''
            else if sublist (str ''permission'') r then str ''Permission denied''
            else str ''Unknown error'')
         (filter (\<lambda>t. P t \<and> truthy (last_result t)) ts)"
  by (induction ts)
     (simp_all add: analyze_step_def truthy_def includes_str_sublist split: option.splits)

lemma issue_tasks_of_steps:
  "map issue_task (concat (map (analyze_step []) (filter P ts))) =
     map subject (filter (\<lambda>t. P t \<and> truthy (last_result t)) ts)"
  by (induction ts) (simp_all add: analyze_step_def truthy_def split: option.splits)

lemma length_analyze_steps:
  "length (concat (map (analyze_step []) (filter P ts))) =
     length (filter (\<lambda>t. P t \<and> truthy (last_result t)) ts)"
  by (induction ts) (simp_all add: analyze_step_def truthy_def split: option.splits)

lemma analyze_step_retry_count:
  "analyze_step acc (t\<lparr>retry_count := c\<rparr>) = analyze_step acc t"
  by (simp add: analyze_step_def split: option.splits)

text \<open>
  C1 (as amended). The issues of a health analysis are, in order, one per failed task with a
  non-empty \<open>last_result\<close>. Its category is decided by the first matching test, and the
  tests are case-sensitive: ``Claude path not found'' when \<open>last_result\<close> contains the
  lower-case words \<open>claude\<close> and \<open>not\<close>, otherwise ``Permission denied'' when it contains
  \<open>permission\<close>, otherwise ``Unknown error''. Here \<open>sublist x r\<close> says that \<open>x\<close> occurs in \<open>r\<close>
  as a contiguous run of code units.
\<close>

theorem analyzeTaskHealth_classifies:
  "map issue_name (issues (analyzeTaskHealth now s)) =
     map (\<lambda>t. let r = the (last_result t) in
            if sublist (str ''claude'') r \<and> sublist (str ''not'') r
              then str ''Claude path not found''
            else if sublist (str ''permission'') r then str ''Permission denied''
            else str ''Unknown error'')
         (filter (\<lambda>t. status t = str ''failed'' \<and> truthy (last_result t)) (tasks s))
   \<and> map issue_task (issues (analyzeTaskHealth now s)) =
     map subject (filter (\<lambda>t. status t = str ''failed'' \<and> truthy (last_result t)) (tasks s))"
  by (simp add: analyzeTaskHealth_def Let_def foldl_analyze_step issue_names_of_steps
        issue_tasks_of_steps)

text \<open>
  C1 as the spec words it fails: the failed sample task with its \<open>last_result\<close> capitalised
  as \<open>Claude not found in PATH\<close> contains both words when case is ignored, and the analysis
  files it under ``Unknown error''.
\<close>

theorem analyzeTaskHealth_case_counterexample:
  "spec_includes_ci (str ''Claude not found in PATH'') (str ''claude'')
   \<and> spec_includes_ci (str ''Claude not found in PATH'') (str ''not'')
   \<and> map issue_name (issues (analyzeTaskHealth (str ''2026-01-30T10:00:00.000Z'')
         (initial_state\<lparr>tasks :=
            [(sampleTasks ! 0)\<lparr>last_result := Some (str ''Claude not found in PATH'')\<rparr>]\<rparr>)))
       = [str ''Unknown error'']"
  by (simp add: spec_includes_ci_def to_lower_ascii_def str_def analyzeTaskHealth_def
        analyze_step_def initial_state_def sampleTasks_def substring0_def backslash_def)

text \<open>
  C2 (as amended). The analysis selects exactly the tasks whose status is \<open>failed\<close>: a task
  with another status is never selected, every failed task is, and \<open>retry_count\<close> plays no
  part. One issue is produced per selected task with a non-empty \<open>last_result\<close>, and
  rewriting the retry counts of the tasks in any way leaves the issues as they were.
\<close>

theorem analyzeTaskHealth_selects_failed:
  "set (failedTasks (analyzeTaskHealth now s)) = {t \<in> set (tasks s). status t = str ''failed''}
   \<and> length (issues (analyzeTaskHealth now s)) =
       length (filter (\<lambda>t. status t = str ''failed'' \<and> truthy (last_result t)) (tasks s))
   \<and> issues (analyzeTaskHealth now (s\<lparr>tasks := map (\<lambda>t. t\<lparr>retry_count := f t\<rparr>) (tasks s)\<rparr>))
       = issues (analyzeTaskHealth now s)"
proof -
  have sel: "set (failedTasks (analyzeTaskHealth now s)) =
      {t \<in> set (tasks s). status t = str ''failed''}"
    by (auto simp: analyzeTaskHealth_def Let_def)
  have len: "length (issues (analyzeTaskHealth now s)) =
       length (filter (\<lambda>t. status t = str ''failed'' \<and> truthy (last_result t)) (tasks s))"
    by (simp add: analyzeTaskHealth_def Let_def foldl_analyze_step length_analyze_steps)
  have conc: "concat (map (analyze_step []) (filter P (map (\<lambda>t. t\<lparr>retry_count := f t\<rparr>) ts)))
      = concat (map (analyze_step []) (filter (\<lambda>t. P (t\<lparr>retry_count := f t\<rparr>)) ts))" for P ts
    by (induction ts) (simp_all add: analyze_step_retry_count)
  have indep: "issues (analyzeTaskHealth now (s\<lparr>tasks := map (\<lambda>t. t\<lparr>retry_count := f t\<rparr>) (tasks s)\<rparr>))
       = issues (analyzeTaskHealth now s)"
    by (simp add: analyzeTaskHealth_def Let_def foldl_analyze_step conc)
  from sel len indep show ?thesis by simp
qed

text \<open>
  C2 as stated fails: the failed sample task, given a retry count of 3, is still selected
  and still analysed.
\<close>

theorem analyzeTaskHealth_retry_ceiling_counterexample:
  "retry_count ((sampleTasks ! 0)\<lparr>retry_count := Some 3\<rparr>) = Some 3
   \<and> status ((sampleTasks ! 0)\<lparr>retry_count := Some 3\<rparr>) = str ''failed''
   \<and> failedTasks (analyzeTaskHealth (str ''2026-01-30T10:00:00.000Z'')
         (initial_state\<lparr>tasks := [(sampleTasks ! 0)\<lparr>retry_count := Some 3\<rparr>]\<rparr>))
       = [(sampleTasks ! 0)\<lparr>retry_count := Some 3\<rparr>]
   \<and> map issue_name (issues (analyzeTaskHealth (str ''2026-01-30T10:00:00.000Z'')
         (initial_state\<lparr>tasks := [(sampleTasks ! 0)\<lparr>retry_count := Some 3\<rparr>]\<rparr>)))
       = [str ''Claude path not found'']"
  by (simp add: str_def analyzeTaskHealth_def analyze_step_def initial_state_def
        sampleTasks_def backslash_def)

section \<open>Merging local drafts\<close>



lemma merge_pending_front:
  "\<exists>new. foldl merge_pending ts ps = new @ ts
     \<and> set new \<subseteq> (\<lambda>d. d\<lparr>is_local := True, pendingSync := True\<rparr>) ` set ps
     \<and> (\<forall>n \<in> set new. task_id n \<notin> task_id ` set ts)
     \<and> distinct (map task_id new)"
proof (induction ps arbitrary: ts)
  case Nil
  show ?case by simp
next
  case (Cons d ps)
  let ?d = "d\<lparr>is_local := True, pendingSync := True\<rparr>"
  show ?case
  proof (cases "\<exists>t \<in> set ts. task_id t = task_id d")
    case True
    then have step: "merge_pending ts d = ts" by (simp add: merge_pending_def)
    from Cons.IH [of ts] obtain new where
      "foldl merge_pending ts ps = new @ ts"
      "set new \<subseteq> (\<lambda>d. d\<lparr>is_local := True, pendingSync := True\<rparr>) ` set ps"
      "\<forall>n \<in> set new. task_id n \<notin> task_id ` set ts" "distinct (map task_id new)"
      by blast
    with step show ?thesis by (intro exI [of _ new]) auto
  next
    case False
    then have step: "merge_pending ts d = ?d # ts" by (simp add: merge_pending_def)
    from Cons.IH [of "?d # ts"] obtain new where n:
      "foldl merge_pending (?d # ts) ps = new @ ?d # ts"
      "set new \<subseteq> (\<lambda>d. d\<lparr>is_local := True, pendingSync := True\<rparr>) ` set ps"
      "\<forall>n \<in> set new. task_id n \<notin> task_id ` set (?d # ts)" "distinct (map task_id new)"
      by blast
    have "foldl merge_pending ts (d # ps) = (new @ [?d]) @ ts"
      using step n(1) by simp
    moreover have "set (new @ [?d]) \<subseteq> (\<lambda>d. d\<lparr>is_local := True, pendingSync := True\<rparr>) ` set (d # ps)"
      using n(2) by auto
    moreover have "\<forall>x \<in> set (new @ [?d]). task_id x \<notin> task_id ` set ts"
      using n(3) False by auto
    moreover have "distinct (map task_id (new @ [?d]))"
      using n(3,4) by auto
    ultimately show ?thesis by blast
  qed
qed

lemma merge_pending_covers:
  "d \<in> set ps \<Longrightarrow> task_id d \<in> task_id ` set (foldl merge_pending ts ps)"
proof (induction ps arbitrary: ts)
  case Nil
  then show ?case by simp
next
  case (Cons x ps)
  have keep: "task_id x \<in> task_id ` set (foldl merge_pending us ps)"
    if "task_id x \<in> task_id ` set us" for us
  proof -
    from merge_pending_front [of us ps] obtain new where "foldl merge_pending us ps = new @ us"
      by blast
    with that show ?thesis by auto
  qed
  show ?case
  proof (cases "d = x")
    case True
    have "task_id x \<in> task_id ` set (merge_pending ts x)"
      by (auto simp: merge_pending_def Let_def intro: rev_image_eqI)
    from keep [OF this] True show ?thesis by simp
  next
    case False
    with Cons.prems have "d \<in> set ps" by simp
    from Cons.IH [OF this] show ?thesis by simp
  qed
qed

lemma distinct_ids_same:
  "distinct (map task_id ps) \<Longrightarrow> d \<in> set ps \<Longrightarrow> d' \<in> set ps \<Longrightarrow>
     task_id d' = task_id d \<Longrightarrow> d' = d"
  by (meson distinct_map inj_onD)

text \<open>
  C3. Merging the stored drafts puts new tasks in front of the loaded list and leaves the
  loaded tasks as they were. Distinct ids stay distinct. A draft whose id is already in the
  list adds nothing under that id. A draft whose id is not in the list is kept, marked as
  local: the first stored draft with that id, which is the draft itself when the stored ids
  are distinct. Subject and working directory are never compared.
\<close>

theorem loadPendingLocalTasks_merges_by_id:
  assumes "ls_pending s = Item ps"
  shows "(\<exists>new. tasks (loadPendingLocalTasks s) = new @ tasks s)
    \<and> (distinct (map task_id (tasks s)) \<longrightarrow> distinct (map task_id (tasks (loadPendingLocalTasks s))))
    \<and> (\<forall>d \<in> set ps. task_id d \<in> task_id ` set (tasks s) \<longrightarrow>
          filter (\<lambda>t. task_id t = task_id d) (tasks (loadPendingLocalTasks s)) =
          filter (\<lambda>t. task_id t = task_id d) (tasks s))
    \<and> (\<forall>d \<in> set ps. task_id d \<notin> task_id ` set (tasks s) \<longrightarrow>
          (\<exists>d' \<in> set ps. task_id d' = task_id d \<and>
             d'\<lparr>is_local := True, pendingSync := True\<rparr> \<in> set (tasks (loadPendingLocalTasks s))))
    \<and> (\<forall>d \<in> set ps. distinct (map task_id ps) \<and> task_id d \<notin> task_id ` set (tasks s) \<longrightarrow>
          d\<lparr>is_local := True, pendingSync := True\<rparr> \<in> set (tasks (loadPendingLocalTasks s)))"
proof -
  have res: "tasks (loadPendingLocalTasks s) = foldl merge_pending (tasks s) ps"
    using assms by (cases ps) (simp_all add: loadPendingLocalTasks_def parse_item_def)
  from merge_pending_front [of "tasks s" ps] obtain new where new:
    "foldl merge_pending (tasks s) ps = new @ tasks s"
    "set new \<subseteq> (\<lambda>d. d\<lparr>is_local := True, pendingSync := True\<rparr>) ` set ps"
    "\<forall>n \<in> set new. task_id n \<notin> task_id ` set (tasks s)"
    "distinct (map task_id new)"
    by blast
  have a: "\<exists>new. tasks (loadPendingLocalTasks s) = new @ tasks s"
    using res new(1) by simp
  have b: "distinct (map task_id (tasks s)) \<longrightarrow>
      distinct (map task_id (tasks (loadPendingLocalTasks s)))"
    using res new(1,3,4) by auto
  have c: "filter (\<lambda>t. task_id t = task_id d) (tasks (loadPendingLocalTasks s)) =
      filter (\<lambda>t. task_id t = task_id d) (tasks s)"
    if "task_id d \<in> task_id ` set (tasks s)" for d
  proof -
    have "filter (\<lambda>t. task_id t = task_id d) new = []"
      using new(3) that by (auto simp: filter_empty_conv)
    then show ?thesis using res new(1) by simp
  qed
  have d: "\<exists>d' \<in> set ps. task_id d' = task_id d \<and>
      d'\<lparr>is_local := True, pendingSync := True\<rparr> \<in> set (tasks (loadPendingLocalTasks s))"
    if "d \<in> set ps" "task_id d \<notin> task_id ` set (tasks s)" for d
  proof -
    from merge_pending_covers [OF that(1), of "tasks s"]
    have "task_id d \<in> task_id ` set (new @ tasks s)"
      using new(1) by simp
    then obtain x where x: "x \<in> set (new @ tasks s)" "task_id x = task_id d"
      by (metis imageE)
    with that(2) have "x \<in> set new" by (metis Un_iff image_eqI set_append)
    with new(2) obtain d' where "d' \<in> set ps" "x = d'\<lparr>is_local := True, pendingSync := True\<rparr>"
      by auto
    with x res new(1) show ?thesis by (intro bexI [of _ d']) auto
  qed
  have e: "d\<lparr>is_local := True, pendingSync := True\<rparr> \<in> set (tasks (loadPendingLocalTasks s))"
    if "d \<in> set ps" "distinct (map task_id ps)" "task_id d \<notin> task_id ` set (tasks s)" for d
  proof -
    from d [OF that(1,3)] obtain d' where d': "d' \<in> set ps" "task_id d' = task_id d"
      "d'\<lparr>is_local := True, pendingSync := True\<rparr> \<in> set (tasks (loadPendingLocalTasks s))"
      by blast
    from distinct_ids_same [OF that(2) that(1) d'(1,2)] d'(3) show ?thesis by simp
  qed
  from a b c d e show ?thesis by blast
qed

text \<open>
  An instance of C3: the stored drafts are a copy of the second sample task under its own id, and
  a copy with the subject and working directory of that task under a new id. The second is
  kept, and the ids stay distinct.
\<close>

theorem loadPendingLocalTasks_merges_by_id_witness:
  "ls_pending (initial_state\<lparr>tasks := sampleTasks,
         ls_pending := Item [(sampleTasks ! 1)\<lparr>status := str ''completed''\<rparr>,
                             (sampleTasks ! 1)\<lparr>task_id := str ''local_1769724964000''\<rparr>]\<rparr>)
     = Item [(sampleTasks ! 1)\<lparr>status := str ''completed''\<rparr>,
             (sampleTasks ! 1)\<lparr>task_id := str ''local_1769724964000''\<rparr>]
   \<and> (sampleTasks ! 1)\<lparr>task_id := str ''local_1769724964000'', is_local := True,
                           pendingSync := True\<rparr>
       \<in> set (tasks (loadPendingLocalTasks
      (initial_state\<lparr>tasks := sampleTasks,
         ls_pending := Item [(sampleTasks ! 1)\<lparr>status := str ''completed''\<rparr>,
                             (sampleTasks ! 1)\<lparr>task_id := str ''local_1769724964000''\<rparr>]\<rparr>)))
   \<and> distinct (map task_id (tasks (loadPendingLocalTasks
      (initial_state\<lparr>tasks := sampleTasks,
         ls_pending := Item [(sampleTasks ! 1)\<lparr>status := str ''completed''\<rparr>,
                             (sampleTasks ! 1)\<lparr>task_id := str ''local_1769724964000''\<rparr>]\<rparr>))))"
proof -
  let ?d1 = "(sampleTasks ! 1)\<lparr>status := str ''completed''\<rparr>"
  let ?d2 = "(sampleTasks ! 1)\<lparr>task_id := str ''local_1769724964000''\<rparr>"
  let ?s = "initial_state\<lparr>tasks := sampleTasks, ls_pending := Item [?d1, ?d2]\<rparr>"
  have ids: "map task_id sampleTasks =
      [str ''sched_SkillsCheatSheet'', str ''session_italy_1'', str ''session_italy_2'']"
    by (simp add: sampleTasks_def)
  have id1: "task_id (sampleTasks ! 1) = str ''session_italy_1''"
    by (simp add: sampleTasks_def)
  have h: "ls_pending ?s = Item [?d1, ?d2]" by simp
  have ts: "tasks ?s = sampleTasks" by simp
  have dist: "distinct (map task_id (tasks ?s))"
    by (simp only: ts ids) simp
  have fresh: "task_id ?d2 \<notin> task_id ` set (tasks ?s)"
    unfolding ts set_map [symmetric] ids by simp
  have dps: "distinct (map task_id [?d1, ?d2])"
    using id1 by simp
  note inst = loadPendingLocalTasks_merges_by_id [OF h]
  from inst dist have c2: "distinct (map task_id (tasks (loadPendingLocalTasks ?s)))"
    by blast
  have "?d2 \<in> set [?d1, ?d2]" by simp
  with inst dps fresh
  have c1: "?d2\<lparr>is_local := True, pendingSync := True\<rparr> \<in> set (tasks (loadPendingLocalTasks ?s))"
    by blast
  from h c1 c2 show ?thesis by simp
qed

section \<open>Assignments round trip\<close>

lemma saveTaskAssignment_value:
  assumes "\<not> inherited taskId" "ls_assignments s \<noteq> Corrupt" "\<not> ls_full s"
    "ty \<noteq> str ''__proto__''"
  shows "\<exists>a e. saveTaskAssignment taskId ty (Some v) s =
           s\<lparr>ls_assignments := Item (a(taskId \<mapsto> e(ty \<mapsto> v)))\<rparr>"
proof -
  from assms(2) obtain a where a: "parse_item Map.empty (ls_assignments s) = Some a"
    by (cases "ls_assignments s") (simp_all add: parse_item_def)
  show ?thesis
  proof (cases "a taskId")
    case None
    with a assms show ?thesis
      by (intro exI [of _ "a(taskId \<mapsto> Map.empty)"] exI [of _ Map.empty])
         (simp add: saveTaskAssignment_def get_property_def)
  next
    case (Some e)
    with a assms show ?thesis
      by (intro exI [of _ a] exI [of _ e])
         (simp add: saveTaskAssignment_def get_property_def)
  qed
qed

lemma saveTaskAssignment_null:
  assumes "\<not> inherited taskId" "ls_assignments s \<noteq> Corrupt" "\<not> ls_full s"
    "ty \<noteq> str ''__proto__''"
  shows "\<exists>a e. saveTaskAssignment taskId ty None s =
           s\<lparr>ls_assignments := Item (a(taskId \<mapsto> e(ty := None)))\<rparr>"
proof -
  from assms(2) obtain a where a: "parse_item Map.empty (ls_assignments s) = Some a"
    by (cases "ls_assignments s") (simp_all add: parse_item_def)
  show ?thesis
  proof (cases "a taskId")
    case None
    with a assms show ?thesis
      by (intro exI [of _ "a(taskId \<mapsto> Map.empty)"] exI [of _ Map.empty])
         (simp add: saveTaskAssignment_def get_property_def)
  next
    case (Some e)
    with a assms show ?thesis
      by (intro exI [of _ a] exI [of _ e])
         (simp add: saveTaskAssignment_def get_property_def)
  qed
qed

lemma saveTaskAssignment_corrupt:
  "ls_assignments s = Corrupt \<Longrightarrow>
     loadTaskAssignments (saveTaskAssignment taskId ty val s) = saveTaskAssignment taskId ty val s
     \<and> tasks (saveTaskAssignment taskId ty val s) = tasks s"
  by (simp add: saveTaskAssignment_def loadTaskAssignments_def parse_item_def showToast_def)

lemma loadTaskAssignments_Item:
  "tasks (loadTaskAssignments (s\<lparr>ls_assignments := Item a\<rparr>)) = map (apply_assignment a) (tasks s)"
  by (simp add: loadTaskAssignments_def parse_item_def)

lemma apply_assignment_skill:
  "v \<noteq> [] \<Longrightarrow>
     assigned_skill (apply_assignment (a(task_id t \<mapsto> e(str ''skill'' \<mapsto> v))) t) = Some v"
  by (simp add: apply_assignment_def truthy_def Let_def)

lemma apply_assignment_agent:
  "v \<noteq> [] \<Longrightarrow>
     assigned_agent (apply_assignment (a(task_id t \<mapsto> e(str ''agent'' \<mapsto> v))) t) = Some v"
  by (simp add: apply_assignment_def truthy_def Let_def)

lemma apply_assignment_no_skill:
  "assigned_skill (apply_assignment (a(task_id t \<mapsto> e(str ''skill'' := None))) t) = assigned_skill t"
  by (simp add: apply_assignment_def truthy_def Let_def)

lemma apply_assignment_no_agent:
  "assigned_agent (apply_assignment (a(task_id t \<mapsto> e(str ''agent'' := None))) t) = assigned_agent t"
  by (simp add: apply_assignment_def truthy_def Let_def)

text \<open>
  C9 (as amended). Let \<open>taskId\<close> be no name inherited from \<open>Object.prototype\<close> and let
  \<open>localStorage\<close> accept writes. Saving and then loading keeps the task list's length. For
  every task with that id: if the stored item was absent or well-formed and \<open>v\<close> is not the
  empty string, saving \<open>v\<close> as skill (as agent) and loading sets its \<open>assigned_skill\<close>
  (\<open>assigned_agent\<close>) to \<open>v\<close>; saving \<open>null\<close> and loading leaves that field as it was. After
  saving \<open>null\<close> over a readable item, the stored entry of the task has no value of that type.
\<close>

theorem assignment_round_trip:
  assumes "\<not> inherited taskId" and "\<not> ls_full s"
  shows "length (tasks (loadTaskAssignments (saveTaskAssignment taskId ty val s))) = length (tasks s)
    \<and> (\<forall>i < length (tasks s). task_id (tasks s ! i) = taskId \<longrightarrow>
         (ls_assignments s \<noteq> Corrupt \<and> v \<noteq> [] \<longrightarrow>
            assigned_skill (tasks (loadTaskAssignments
                (saveTaskAssignment taskId (str ''skill'') (Some v) s)) ! i) = Some v
          \<and> assigned_agent (tasks (loadTaskAssignments
                (saveTaskAssignment taskId (str ''agent'') (Some v) s)) ! i) = Some v)
       \<and> assigned_skill (tasks (loadTaskAssignments
                (saveTaskAssignment taskId (str ''skill'') None s)) ! i) = assigned_skill (tasks s ! i)
       \<and> assigned_agent (tasks (loadTaskAssignments
                (saveTaskAssignment taskId (str ''agent'') None s)) ! i) = assigned_agent (tasks s ! i))
    \<and> (ls_assignments s \<noteq> Corrupt \<longrightarrow>
         (\<exists>a e. ls_assignments (saveTaskAssignment taskId (str ''skill'') None s) = Item a
            \<and> a taskId = Some e \<and> e (str ''skill'') = None)
       \<and> (\<exists>a e. ls_assignments (saveTaskAssignment taskId (str ''agent'') None s) = Item a
            \<and> a taskId = Some e \<and> e (str ''agent'') = None))"
proof -
  have len: "length (tasks (loadTaskAssignments (saveTaskAssignment taskId ty val s))) = length (tasks s)"
    by (simp add: saveTaskAssignment_def loadTaskAssignments_def parse_item_def showToast_def Let_def
          split: item.splits option.splits)
  have np: "str ''skill'' \<noteq> str ''__proto__''" "str ''agent'' \<noteq> str ''__proto__''" by simp_all
  have restore: "assigned_skill (tasks (loadTaskAssignments
                (saveTaskAssignment taskId (str ''skill'') (Some v) s)) ! i) = Some v
          \<and> assigned_agent (tasks (loadTaskAssignments
                (saveTaskAssignment taskId (str ''agent'') (Some v) s)) ! i) = Some v"
    if "i < length (tasks s)" "task_id (tasks s ! i) = taskId" "ls_assignments s \<noteq> Corrupt" "v \<noteq> []"
    for i
  proof -
    from saveTaskAssignment_value [OF assms(1) that(3) assms(2) np(1), of v]
    obtain a e where 1: "saveTaskAssignment taskId (str ''skill'') (Some v) s =
        s\<lparr>ls_assignments := Item (a(taskId \<mapsto> e(str ''skill'' \<mapsto> v)))\<rparr>" by blast
    from saveTaskAssignment_value [OF assms(1) that(3) assms(2) np(2), of v]
    obtain a' e' where 2: "saveTaskAssignment taskId (str ''agent'') (Some v) s =
        s\<lparr>ls_assignments := Item (a'(taskId \<mapsto> e'(str ''agent'' \<mapsto> v)))\<rparr>" by blast
    show ?thesis
      using that(1,2,4) apply_assignment_skill [of v a "tasks s ! i" e]
        apply_assignment_agent [of v a' "tasks s ! i" e']
      by (simp add: 1 2 loadTaskAssignments_Item)
  qed
  have remove: "assigned_skill (tasks (loadTaskAssignments
                (saveTaskAssignment taskId (str ''skill'') None s)) ! i) = assigned_skill (tasks s ! i)
       \<and> assigned_agent (tasks (loadTaskAssignments
                (saveTaskAssignment taskId (str ''agent'') None s)) ! i) = assigned_agent (tasks s ! i)"
    if "i < length (tasks s)" "task_id (tasks s ! i) = taskId" for i
  proof (cases "ls_assignments s = Corrupt")
    case True
    then show ?thesis by (simp add: saveTaskAssignment_corrupt)
  next
    case False
    from saveTaskAssignment_null [OF assms(1) False assms(2) np(1)]
    obtain a e where 1: "saveTaskAssignment taskId (str ''skill'') None s =
        s\<lparr>ls_assignments := Item (a(taskId \<mapsto> e(str ''skill'' := None)))\<rparr>" by blast
    from saveTaskAssignment_null [OF assms(1) False assms(2) np(2)]
    obtain a' e' where 2: "saveTaskAssignment taskId (str ''agent'') None s =
        s\<lparr>ls_assignments := Item (a'(taskId \<mapsto> e'(str ''agent'' := None)))\<rparr>" by blast
    show ?thesis
      using that apply_assignment_no_skill [of a "tasks s ! i" e]
        apply_assignment_no_agent [of a' "tasks s ! i" e']
      by (simp add: 1 2 loadTaskAssignments_Item)
  qed
  have gone: "(\<exists>a e. ls_assignments (saveTaskAssignment taskId (str ''skill'') None s) = Item a
            \<and> a taskId = Some e \<and> e (str ''skill'') = None)
       \<and> (\<exists>a e. ls_assignments (saveTaskAssignment taskId (str ''agent'') None s) = Item a
            \<and> a taskId = Some e \<and> e (str ''agent'') = None)"
    if "ls_assignments s \<noteq> Corrupt"
  proof -
    from saveTaskAssignment_null [OF assms(1) that assms(2) np(1)]
    obtain a e where 1: "saveTaskAssignment taskId (str ''skill'') None s =
        s\<lparr>ls_assignments := Item (a(taskId \<mapsto> e(str ''skill'' := None)))\<rparr>" by blast
    from saveTaskAssignment_null [OF assms(1) that assms(2) np(2)]
    obtain a' e' where 2: "saveTaskAssignment taskId (str ''agent'') None s =
        s\<lparr>ls_assignments := Item (a'(taskId \<mapsto> e'(str ''agent'' := None)))\<rparr>" by blast
    show ?thesis by (simp add: 1 2)
  qed
  from len restore remove gone show ?thesis by blast
qed

lemma sample_ids:
  "map task_id sampleTasks =
     [str ''sched_SkillsCheatSheet'', str ''session_italy_1'', str ''session_italy_2'']"
  by (simp add: sampleTasks_def)

text \<open>An instance of C9 on the sample tasks, for the second of them.\<close>

theorem assignment_round_trip_witness:
  "\<not> inherited (str ''session_italy_1'')
   \<and> \<not> ls_full (initial_state\<lparr>tasks := sampleTasks\<rparr>)
   \<and> assigned_skill (tasks (loadTaskAssignments (saveTaskAssignment (str ''session_italy_1'')
         (str ''skill'') (Some (str ''code-review'')) (initial_state\<lparr>tasks := sampleTasks\<rparr>))) ! 1)
       = Some (str ''code-review'')
   \<and> assigned_agent (tasks (loadTaskAssignments (saveTaskAssignment (str ''session_italy_1'')
         (str ''agent'') None (initial_state\<lparr>tasks := sampleTasks\<rparr>))) ! 1)
       = None"
proof -
  let ?s = "initial_state\<lparr>tasks := sampleTasks\<rparr>"
  have h1: "\<not> inherited (str ''session_italy_1'')"
    by (simp add: inherited_def object_prototype_keys_def)
  have h2: "\<not> ls_full ?s" by (simp add: initial_state_def)
  have h3: "ls_assignments ?s \<noteq> Corrupt" by (simp add: initial_state_def)
  have h4: "str ''code-review'' \<noteq> []" by simp
  have i: "1 < length (tasks ?s)" "task_id (tasks ?s ! 1) = str ''session_italy_1''"
    "assigned_agent (tasks ?s ! 1) = None"
    by (simp_all add: sampleTasks_def)
  note inst = assignment_round_trip [OF h1 h2, of _ _ "str ''code-review''"]
  from inst i h3 h4 have c1: "assigned_skill (tasks (loadTaskAssignments
      (saveTaskAssignment (str ''session_italy_1'') (str ''skill'') (Some (str ''code-review'')) ?s)) ! 1)
       = Some (str ''code-review'')"
    by blast
  from inst i have c2: "assigned_agent (tasks (loadTaskAssignments
      (saveTaskAssignment (str ''session_italy_1'') (str ''agent'') None ?s)) ! 1) = None"
    by metis
  from h1 h2 c1 c2 show ?thesis by blast
qed

text \<open>
  C9 as stated fails for the non-null value \<open>''\<close>: it is stored, and the load skips it as
  falsy, so the task's \<open>assigned_skill\<close> is not restored to it.
\<close>

theorem assignment_empty_value_counterexample:
  "task_id (tasks (initial_state\<lparr>tasks := sampleTasks\<rparr>) ! 1) = str ''session_italy_1''
   \<and> assigned_skill (tasks (loadTaskAssignments (saveTaskAssignment (str ''session_italy_1'')
         (str ''skill'') (Some []) (initial_state\<lparr>tasks := sampleTasks\<rparr>))) ! 1) = None"
  by (simp add: saveTaskAssignment_def loadTaskAssignments_def parse_item_def get_property_def
        inherited_def object_prototype_keys_def apply_assignment_def truthy_def initial_state_def
        sampleTasks_def)

text \<open>
  An id that the parsed object inherits is never written to the store, which is why the
  round trip above excludes such ids.
\<close>

lemma saveTaskAssignment_inherited_id:
  "inherited taskId \<Longrightarrow> ls_assignments s = Item a \<Longrightarrow> a taskId = None \<Longrightarrow> \<not> ls_full s \<Longrightarrow>
     saveTaskAssignment taskId ty val s = s"
  by (simp add: saveTaskAssignment_def parse_item_def get_property_def)

section \<open>Creating a task: statistics\<close>

lemma count_by_status:
  "length (filter (\<lambda>t. status t = c) ts) = count_list (map status ts) c"
  by (induction ts) simp_all

lemma update_first_length [simp]: "length (update_first p f xs) = length xs"
  by (induction xs) simp_all

lemma map_update_first:
  "(\<And>x. g (f x) = g x) \<Longrightarrow> map g (update_first p f xs) = map g xs"
  by (induction xs) simp_all

lemma tasks_showToast [simp]: "tasks (showToast m k s) = tasks s"
  by (simp add: showToast_def)

lemma tasks_saveTaskLocally [simp]: "tasks (saveTaskLocally t s) = tasks s"
  by (simp add: saveTaskLocally_def Let_def split: option.splits)

lemma tasks_updateStatistics [simp]: "tasks (updateStatistics st s) = tasks s"
  by (simp add: updateStatistics_def Let_def split: option.splits)

lemma saveNewTask_created:
  assumes "titleEl f \<noteq> None" "el_trimmed (titleEl f) \<noteq> []" "el_trimmed (workingDirEl f) \<noteq> []"
  shows "saveNewTask clk f s =
     showToast (str ''Task created successfully!'') (str ''success'')
       (updateStatistics (Some (newTaskStats (newTask clk f # tasks s)))
          ((saveTaskLocally (newTask clk f) s)\<lparr>tasks := newTask clk f # tasks s\<rparr>))"
  using assms by (auto simp: saveNewTask_def Let_def)

text \<open>
  C6. When a new task has been saved, the page shows the statistics of the task list as it
  is then, the new task included: the statistics object has \<open>total\<close> equal to the number of
  tasks and, for each status, the number of tasks with that status, and the counters shown
  are those numbers (pending and in progress are shown as one sum).
\<close>

theorem saveNewTask_statistics:
  assumes "titleEl f \<noteq> None" "el_trimmed (titleEl f) \<noteq> []" "el_trimmed (workingDirEl f) \<noteq> []"
  shows "shown (saveNewTask clk f s) =
           shown (updateStatistics (Some (newTaskStats (tasks (saveNewTask clk f s)))) s)
    \<and> total (newTaskStats ts) = length ts
    \<and> stats_by_status (newTaskStats ts) = Some
         \<lparr>n_pending = count_list (map status ts) (str ''pending''),
          n_in_progress = count_list (map status ts) (str ''in_progress''),
          n_completed = count_list (map status ts) (str ''completed''),
          n_failed = count_list (map status ts) (str ''failed'')\<rparr>
    \<and> el_totalTasks (shown (saveNewTask clk f s)) = length (tasks (saveNewTask clk f s))
    \<and> el_pendingTasks (shown (saveNewTask clk f s)) =
         count_list (map status (tasks (saveNewTask clk f s))) (str ''pending'') +
         count_list (map status (tasks (saveNewTask clk f s))) (str ''in_progress'')
    \<and> el_failedTasks (shown (saveNewTask clk f s)) =
         count_list (map status (tasks (saveNewTask clk f s))) (str ''failed'')
    \<and> el_completedTasks (shown (saveNewTask clk f s)) =
         count_list (map status (tasks (saveNewTask clk f s))) (str ''completed'')"
proof -
  note created = saveNewTask_created [OF assms, of clk s]
  have ts: "tasks (saveNewTask clk f s) = newTask clk f # tasks s"
    by (simp add: created)
  have sh: "shown (saveNewTask clk f s) =
      shown (updateStatistics (Some (newTaskStats (newTask clk f # tasks s))) s)"
    by (simp add: created showToast_def updateStatistics_def Let_def)
  have st: "total (newTaskStats ts) = length ts
    \<and> stats_by_status (newTaskStats ts) = Some
         \<lparr>n_pending = count_list (map status ts) (str ''pending''),
          n_in_progress = count_list (map status ts) (str ''in_progress''),
          n_completed = count_list (map status ts) (str ''completed''),
          n_failed = count_list (map status ts) (str ''failed'')\<rparr>" for ts
    by (simp add: newTaskStats_def count_by_status)
  have "shown (updateStatistics (Some (newTaskStats us)) s) =
      \<lparr>el_totalTasks = length us,
       el_pendingTasks = count_list (map status us) (str ''pending'') +
                         count_list (map status us) (str ''in_progress''),
       el_failedTasks = count_list (map status us) (str ''failed''),
       el_completedTasks = count_list (map status us) (str ''completed''),
       banner_warning = (count_list (map status us) (str ''failed'') > 0)\<rparr>" for us
    using st [of us] by (simp add: updateStatistics_def Let_def)
  with sh ts st show ?thesis by simp
qed

lemma example_form_ok:
  "titleEl example_form \<noteq> None" "el_trimmed (titleEl example_form) = str ''Write report''"
  "el_trimmed (workingDirEl example_form) = str ''C:/work''"
  by (simp_all add: example_form_def el_trimmed_def trim_def is_ws_def str_def)


text \<open>
  An instance of C6: saving the example form over the three sample tasks shows a total of 4, of
  which 2 are pending or in progress.
\<close>

theorem saveNewTask_statistics_witness:
  "titleEl example_form \<noteq> None \<and> el_trimmed (titleEl example_form) \<noteq> []
   \<and> el_trimmed (workingDirEl example_form) \<noteq> []
   \<and> el_totalTasks (shown (saveNewTask example_clock example_form
         (initial_state\<lparr>tasks := sampleTasks\<rparr>))) = 4
   \<and> el_pendingTasks (shown (saveNewTask example_clock example_form
         (initial_state\<lparr>tasks := sampleTasks\<rparr>))) = 2"
proof -
  let ?s = "initial_state\<lparr>tasks := sampleTasks\<rparr>"
  have h: "titleEl example_form \<noteq> None" "el_trimmed (titleEl example_form) \<noteq> []"
    "el_trimmed (workingDirEl example_form) \<noteq> []"
    by (simp_all add: example_form_ok)
  have ts: "tasks (saveNewTask example_clock example_form ?s) =
      newTask example_clock example_form # sampleTasks"
    by (simp add: saveNewTask_created [OF h])
  have sts: "map status (newTask example_clock example_form # sampleTasks) =
      [str ''pending'', str ''failed'', str ''pending'', str ''completed'']"
    by (simp add: newTask_def sampleTasks_def Let_def)
  note inst = saveNewTask_statistics [OF h, of example_clock ?s]
  from inst have tot: "el_totalTasks (shown (saveNewTask example_clock example_form ?s)) =
      length (tasks (saveNewTask example_clock example_form ?s))"
    by (rule conjunct2 [THEN conjunct2, THEN conjunct2, THEN conjunct1])
  from inst have pend: "el_pendingTasks (shown (saveNewTask example_clock example_form ?s)) =
      count_list (map status (tasks (saveNewTask example_clock example_form ?s))) (str ''pending'') +
      count_list (map status (tasks (saveNewTask example_clock example_form ?s))) (str ''in_progress'')"
    by (rule conjunct2 [THEN conjunct2, THEN conjunct2, THEN conjunct2, THEN conjunct1])
  have len: "length sampleTasks = 3" by (simp add: sampleTasks_def)
  have c1: "el_totalTasks (shown (saveNewTask example_clock example_form ?s)) = 4"
    by (simp only: tot ts) (simp add: len)
  have c2: "el_pendingTasks (shown (saveNewTask example_clock example_form ?s)) = 2"
    by (simp only: pend ts sts) simp
  from h c1 c2 show ?thesis by (intro conjI)
qed

section \<open>Creating a task: the new record\<close>

lemma find_update_first:
  "\<exists>x \<in> set xs. p x \<Longrightarrow> p t \<Longrightarrow> find p (update_first p (\<lambda>_. t) xs) = Some t"
  by (induction xs) auto

lemma find_append_new:
  "\<not> (\<exists>x \<in> set xs. p x) \<Longrightarrow> p t \<Longrightarrow> find p (xs @ [t]) = Some t"
  by (induction xs) auto

lemma find_Some_mem: "find p xs = Some x \<Longrightarrow> x \<in> set xs \<and> p x"
  by (induction xs) (auto split: if_splits)

lemma saveTaskLocally_stores:
  assumes "ls_pending s \<noteq> Corrupt" "\<not> ls_full s"
  shows "\<exists>ps. ls_pending (saveTaskLocally t s) = Item ps
           \<and> find (\<lambda>x. task_id x = task_id t) ps = Some t"
proof -
  from assms(1) obtain ps0 where p: "parse_item [] (ls_pending s) = Some ps0"
    by (cases "ls_pending s") (simp_all add: parse_item_def)
  show ?thesis
  proof (cases "\<exists>x \<in> set ps0. task_id x = task_id t")
    case True
    then have "find (\<lambda>x. task_id x = task_id t)
        (update_first (\<lambda>x. task_id x = task_id t) (\<lambda>_. t) ps0) = Some t"
      by (intro find_update_first) auto
    with True p assms(2) show ?thesis by (simp add: saveTaskLocally_def)
  next
    case False
    then have "find (\<lambda>x. task_id x = task_id t) (ps0 @ [t]) = Some t"
      by (intro find_append_new) auto
    with False p assms(2) show ?thesis by (simp add: saveTaskLocally_def)
  qed
qed

lemma merge_pending_keeps_first:
  "find (\<lambda>x. task_id x = k) ps = Some d \<Longrightarrow> k \<notin> task_id ` set ts \<Longrightarrow>
     d\<lparr>is_local := True, pendingSync := True\<rparr> \<in> set (foldl merge_pending ts ps)"
proof (induction ps arbitrary: ts)
  case Nil
  then show ?case by simp
next
  case (Cons x ps)
  show ?case
  proof (cases "task_id x = k")
    case True
    with Cons.prems have dx: "d = x" by simp
    from True Cons.prems(2) have "\<not> (\<exists>t \<in> set ts. task_id t = task_id x)"
      by (metis image_eqI)
    then have step: "merge_pending ts x = x\<lparr>is_local := True, pendingSync := True\<rparr> # ts"
      by (simp add: merge_pending_def Let_def)
    from merge_pending_front [of "merge_pending ts x" ps] obtain new where
      "foldl merge_pending (merge_pending ts x) ps = new @ merge_pending ts x" by blast
    with step dx show ?thesis by simp
  next
    case False
    with Cons.prems have f: "find (\<lambda>x. task_id x = k) ps = Some d" by simp
    from False Cons.prems(2) have "k \<notin> task_id ` set (merge_pending ts x)"
      by (auto simp: merge_pending_def Let_def image_iff)
    from Cons.IH [OF f this] show ?thesis by simp
  qed
qed

lemma ls_pending_showToast [simp]: "ls_pending (showToast m k s) = ls_pending s"
  by (simp add: showToast_def)

lemma ls_pending_updateStatistics [simp]: "ls_pending (updateStatistics st s) = ls_pending s"
  by (simp add: updateStatistics_def Let_def split: option.splits)

lemma newTask_marked:
  "(newTask clk f)\<lparr>is_local := True, pendingSync := True\<rparr> = newTask clk f"
  by (simp add: newTask_def Let_def)

lemma newTask_source:
  "source (newTask clk f) =
     (if scheduleChecked f = Some (str ''later'') then str ''scheduled'' else str ''session'')"
  by (auto simp: newTask_def Let_def or_else_def split: option.splits)

text \<open>
  C5. When the form has a title and a working directory (both non-empty after trimming),
  \<open>saveNewTask\<close> puts one new task in front of the list. Its id is \<open>local_\<close> followed by
  the clock reading, its status is \<open>pending\<close>, its source is \<open>scheduled\<close> when the schedule
  choice is \<open>later\<close> and \<open>session\<close> otherwise, and it is marked local and pending sync. When
  the store of pending drafts is readable and writable, the task is in the store, and a
  later load puts it, still marked, into any registry list that does not have its id.
\<close>

theorem saveNewTask_creates_local_task:
  assumes "titleEl f \<noteq> None" "el_trimmed (titleEl f) \<noteq> []" "el_trimmed (workingDirEl f) \<noteq> []"
  shows "\<exists>t. tasks (saveNewTask clk f s) = t # tasks s
      \<and> task_id t = str ''local_'' @ num_to_string (date_now clk)
      \<and> prefix (str ''local_'') (task_id t)
      \<and> status t = str ''pending''
      \<and> source t = (if scheduleChecked f = Some (str ''later'')
                      then str ''scheduled'' else str ''session'')
      \<and> is_local t \<and> pendingSync t
      \<and> (ls_pending s \<noteq> Corrupt \<and> \<not> ls_full s \<longrightarrow>
           (\<exists>ps. ls_pending (saveNewTask clk f s) = Item ps \<and> t \<in> set ps)
         \<and> (\<forall>rs. task_id t \<notin> task_id ` set rs \<longrightarrow>
               t \<in> set (tasks (loadPendingLocalTasks ((saveNewTask clk f s)\<lparr>tasks := rs\<rparr>)))))"
proof -
  let ?t = "newTask clk f"
  note created = saveNewTask_created [OF assms, of clk s]
  have ts: "tasks (saveNewTask clk f s) = ?t # tasks s"
    by (simp add: created)
  have lp: "ls_pending (saveNewTask clk f s) = ls_pending (saveTaskLocally ?t s)"
    by (simp add: created)
  have fields: "task_id ?t = str ''local_'' @ num_to_string (date_now clk)"
    "status ?t = str ''pending''" "is_local ?t" "pendingSync ?t"
    by (simp_all add: newTask_def Let_def)
  have pre: "prefix (str ''local_'') (task_id ?t)"
    by (simp add: fields(1))
  have store: "(\<exists>ps. ls_pending (saveNewTask clk f s) = Item ps \<and> ?t \<in> set ps)
      \<and> (\<forall>rs. task_id ?t \<notin> task_id ` set rs \<longrightarrow>
            ?t \<in> set (tasks (loadPendingLocalTasks ((saveNewTask clk f s)\<lparr>tasks := rs\<rparr>))))"
    if ok: "ls_pending s \<noteq> Corrupt" "\<not> ls_full s"
  proof -
    from saveTaskLocally_stores [OF ok, of ?t] obtain ps where
      ps: "ls_pending (saveTaskLocally ?t s) = Item ps"
        "find (\<lambda>x. task_id x = task_id ?t) ps = Some ?t"
      by blast
    from find_Some_mem [OF ps(2)] have mem: "?t \<in> set ps" by simp
    have reload: "?t \<in> set (tasks (loadPendingLocalTasks ((saveNewTask clk f s)\<lparr>tasks := rs\<rparr>)))"
      if "task_id ?t \<notin> task_id ` set rs" for rs
    proof -
      from mem have ne: "length ps > 0" by (cases ps) simp_all
      have "tasks (loadPendingLocalTasks ((saveNewTask clk f s)\<lparr>tasks := rs\<rparr>)) =
          foldl merge_pending rs ps"
        using ne by (simp add: loadPendingLocalTasks_def parse_item_def lp ps(1))
      with merge_pending_keeps_first [OF ps(2) that] show ?thesis
        by (simp add: newTask_marked)
    qed
    from ps(1) mem reload lp show ?thesis by auto
  qed
  from ts fields pre newTask_source [of clk f] store show ?thesis
    by (intro exI [of _ ?t]) blast
qed


lemma example_clock_id:
  "str ''local_'' @ num_to_string (date_now example_clock) = str ''local_1769724964000''"
  by (simp add: example_clock_def num_to_string_def digits.simps str_def)

text \<open>An instance of C5: the example form, saved over the sample tasks.\<close>

theorem saveNewTask_creates_local_task_witness:
  "titleEl example_form \<noteq> None \<and> el_trimmed (titleEl example_form) \<noteq> []
   \<and> el_trimmed (workingDirEl example_form) \<noteq> []
   \<and> task_id (hd (tasks (saveNewTask example_clock example_form
         (initial_state\<lparr>tasks := sampleTasks\<rparr>)))) = str ''local_1769724964000''
   \<and> source (hd (tasks (saveNewTask example_clock example_form
         (initial_state\<lparr>tasks := sampleTasks\<rparr>)))) = str ''scheduled''
   \<and> is_local (hd (tasks (saveNewTask example_clock example_form
         (initial_state\<lparr>tasks := sampleTasks\<rparr>))))"
proof -
  let ?s = "initial_state\<lparr>tasks := sampleTasks\<rparr>"
  have h: "titleEl example_form \<noteq> None" "el_trimmed (titleEl example_form) \<noteq> []"
    "el_trimmed (workingDirEl example_form) \<noteq> []"
    by (simp_all add: example_form_ok)
  have later: "scheduleChecked example_form = Some (str ''later'')"
    by (simp add: example_form_def)
  from saveNewTask_creates_local_task [OF h, of example_clock ?s] obtain t where
    t: "tasks (saveNewTask example_clock example_form ?s) = t # tasks ?s"
      "task_id t = str ''local_'' @ num_to_string (date_now example_clock)"
      "source t = (if scheduleChecked example_form = Some (str ''later'')
                   then str ''scheduled'' else str ''session'')"
      "is_local t"
    by blast
  have c1: "task_id (hd (tasks (saveNewTask example_clock example_form ?s))) =
      str ''local_1769724964000''"
    by (simp only: t(1) list.sel t(2) example_clock_id)
  have c2: "source (hd (tasks (saveNewTask example_clock example_form ?s))) = str ''scheduled''"
    by (simp only: t(1) list.sel t(3) later) simp
  have c3: "is_local (hd (tasks (saveNewTask example_clock example_form ?s)))"
    by (simp only: t(1) list.sel t(4))
  from h c1 c2 c3 show ?thesis by (intro conjI)
qed

section \<open>Starting a task\<close>

lemma update_first_index:
  "find p xs = Some x \<Longrightarrow>
     \<exists>i < length xs. xs ! i = x \<and> (\<forall>j < i. \<not> p (xs ! j)) \<and> update_first p f xs = xs[i := f x]"
proof (induction xs)
  case Nil
  then show ?case by simp
next
  case (Cons y ys)
  show ?case
  proof (cases "p y")
    case True
    with Cons.prems have "y = x" by simp
    with True show ?thesis by (intro exI [of _ 0]) simp
  next
    case False
    with Cons.prems have "find p ys = Some x" by simp
    from Cons.IH [OF this] obtain i where i: "i < length ys" "ys ! i = x"
      "\<forall>j < i. \<not> p (ys ! j)" "update_first p f ys = ys[i := f x]" by blast
    have "\<forall>j < Suc i. \<not> p ((y # ys) ! j)"
      using False i(3) by (auto simp: nth_Cons split: nat.splits)
    with False i show ?thesis by (intro exI [of _ "Suc i"]) simp
  qed
qed

lemma startTask_not_found:
  "find (\<lambda>t. task_id t = taskId) (tasks s) = None \<Longrightarrow> startTask server now taskId s = s"
  by (simp add: startTask_def)

lemma startTask_offline:
  "find (\<lambda>t. task_id t = taskId) (tasks s) = Some task \<Longrightarrow> \<not> serverAvailable s \<Longrightarrow>
     startTask server now taskId s = s\<lparr>run_modal := Some (subject task, manual_command task)\<rparr>"
  by (simp add: startTask_def)

lemma startTask_throws:
  "find (\<lambda>t. task_id t = taskId) (tasks s) = Some task \<Longrightarrow> serverAvailable s \<Longrightarrow>
     server (run_request_of task) = Throws msg \<Longrightarrow>
     startTask server now taskId s =
       showToast (str ''Server error: '' @ msg) (str ''error'')
         (showToast (str ''Starting task...'') (str ''info'') s)"
  by (simp add: startTask_def)

lemma startTask_refused:
  "find (\<lambda>t. task_id t = taskId) (tasks s) = Some task \<Longrightarrow> serverAvailable s \<Longrightarrow>
     server (run_request_of task) = Reply r \<Longrightarrow> \<not> success r \<Longrightarrow>
     startTask server now taskId s =
       showToast (str ''Failed: '' @ template (run_error r)) (str ''error'')
         (showToast (str ''Starting task...'') (str ''info'') s)"
  by (simp add: startTask_def)

lemma startTask_started:
  "find (\<lambda>t. task_id t = taskId) (tasks s) = Some task \<Longrightarrow> serverAvailable s \<Longrightarrow>
     server (run_request_of task) = Reply r \<Longrightarrow> success r \<Longrightarrow>
     tasks (startTask server now taskId s) =
       update_first (\<lambda>t. task_id t = taskId)
         (\<lambda>t. t\<lparr>status := str ''in_progress'', last_updated := Some now\<rparr>) (tasks s)"
  by (simp add: startTask_def Let_def)

text \<open>
  C8. \<open>startTask\<close> leaves the task list as it was when no task has the id, when the local
  server is not available, when the request throws, and when the result is not a success.
  When the server reports success, the list changes at one position only: that of the first
  task with the id, whose \<open>status\<close> becomes \<open>in_progress\<close> and whose \<open>last_updated\<close> becomes
  the current time, all its other fields and all other tasks staying as they were. (The
  function is read as one uninterrupted step: what other handlers do to \<open>state.tasks\<close>
  while the request is awaited is not part of it.)
\<close>

theorem startTask_frame:
  "((find (\<lambda>t. task_id t = taskId) (tasks s) = None
      \<or> (\<exists>task. find (\<lambda>t. task_id t = taskId) (tasks s) = Some task \<and>
            (\<not> serverAvailable s
             \<or> (\<exists>msg. server (run_request_of task) = Throws msg)
             \<or> (\<exists>r. server (run_request_of task) = Reply r \<and> \<not> success r))))
     \<longrightarrow> tasks (startTask server now taskId s) = tasks s)
   \<and> (\<forall>task r. find (\<lambda>t. task_id t = taskId) (tasks s) = Some task \<and> serverAvailable s
          \<and> server (run_request_of task) = Reply r \<and> success r \<longrightarrow>
        (\<exists>i < length (tasks s). tasks s ! i = task \<and> task_id task = taskId
           \<and> (\<forall>j < i. task_id (tasks s ! j) \<noteq> taskId)
           \<and> tasks (startTask server now taskId s) =
               (tasks s)[i := task\<lparr>status := str ''in_progress'', last_updated := Some now\<rparr>]))"
proof (intro conjI impI allI)
  assume "find (\<lambda>t. task_id t = taskId) (tasks s) = None
      \<or> (\<exists>task. find (\<lambda>t. task_id t = taskId) (tasks s) = Some task \<and>
            (\<not> serverAvailable s
             \<or> (\<exists>msg. server (run_request_of task) = Throws msg)
             \<or> (\<exists>r. server (run_request_of task) = Reply r \<and> \<not> success r)))"
  then show "tasks (startTask server now taskId s) = tasks s"
    by (cases "serverAvailable s")
       (auto simp: startTask_not_found startTask_offline startTask_throws startTask_refused)
next
  fix task r
  assume a: "find (\<lambda>t. task_id t = taskId) (tasks s) = Some task \<and> serverAvailable s
          \<and> server (run_request_of task) = Reply r \<and> success r"
  then have f: "find (\<lambda>t. task_id t = taskId) (tasks s) = Some task" by simp
  from update_first_index [OF f, of "\<lambda>t. t\<lparr>status := str ''in_progress'', last_updated := Some now\<rparr>"]
  obtain i where i: "i < length (tasks s)" "tasks s ! i = task"
    "\<forall>j < i. task_id (tasks s ! j) \<noteq> taskId"
    "update_first (\<lambda>t. task_id t = taskId)
       (\<lambda>t. t\<lparr>status := str ''in_progress'', last_updated := Some now\<rparr>) (tasks s) =
     (tasks s)[i := task\<lparr>status := str ''in_progress'', last_updated := Some now\<rparr>]"
    by blast
  have id: "task_id task = taskId"
    using f by (induction "tasks s") (auto dest: find_Some_iff [THEN iffD1])
  from a have st: "tasks (startTask server now taskId s) =
      update_first (\<lambda>t. task_id t = taskId)
        (\<lambda>t. t\<lparr>status := str ''in_progress'', last_updated := Some now\<rparr>) (tasks s)"
    by (simp add: startTask_started)
  from i id st show "\<exists>i < length (tasks s). tasks s ! i = task \<and> task_id task = taskId
           \<and> (\<forall>j < i. task_id (tasks s ! j) \<noteq> taskId)
           \<and> tasks (startTask server now taskId s) =
               (tasks s)[i := task\<lparr>status := str ''in_progress'', last_updated := Some now\<rparr>]"
    by (intro exI [of _ i]) simp
qed


lemma map_list_update_same:
  "i < length xs \<Longrightarrow> g y = g (xs ! i) \<Longrightarrow> map g (xs[i := y]) = map g xs"
  by (simp add: map_update list_update_same_conv)

text \<open>
  An instance of C8 on the sample tasks, the server available and reporting success: starting
  the second task keeps every id in place, and starting an unknown id changes nothing.
\<close>

theorem startTask_frame_witness:
  "find (\<lambda>t. task_id t = str ''session_italy_1'')
      (tasks (initial_state\<lparr>tasks := sampleTasks, serverAvailable := True\<rparr>))
     = Some (sampleTasks ! 1)
   \<and> serverAvailable (initial_state\<lparr>tasks := sampleTasks, serverAvailable := True\<rparr>)
   \<and> map task_id (tasks (startTask
         (\<lambda>r. Reply \<lparr>success = True, runId = Some (str ''run_1''), run_error = None\<rparr>)
         (str ''2026-01-30T10:00:00.000Z'') (str ''session_italy_1'')
         (initial_state\<lparr>tasks := sampleTasks, serverAvailable := True\<rparr>)))
       = map task_id sampleTasks
   \<and> find (\<lambda>t. task_id t = str ''no_such_task'')
      (tasks (initial_state\<lparr>tasks := sampleTasks, serverAvailable := True\<rparr>)) = None
   \<and> tasks (startTask
         (\<lambda>r. Reply \<lparr>success = True, runId = Some (str ''run_1''), run_error = None\<rparr>)
         (str ''2026-01-30T10:00:00.000Z'') (str ''no_such_task'')
         (initial_state\<lparr>tasks := sampleTasks, serverAvailable := True\<rparr>))
       = sampleTasks"
proof -
  let ?s = "initial_state\<lparr>tasks := sampleTasks, serverAvailable := True\<rparr>"
  let ?srv = "\<lambda>r::run_request. Reply \<lparr>success = True, runId = Some (str ''run_1''), run_error = None\<rparr>"
  let ?now = "str ''2026-01-30T10:00:00.000Z''"
  have ts: "tasks ?s = sampleTasks" by simp
  have av: "serverAvailable ?s" by simp
  have f1: "find (\<lambda>t. task_id t = str ''session_italy_1'') (tasks ?s) = Some (sampleTasks ! 1)"
    by (simp add: sampleTasks_def)
  have f2: "find (\<lambda>t. task_id t = str ''no_such_task'') (tasks ?s) = None"
    by (simp add: sampleTasks_def)
  have ok: "?srv (run_request_of (sampleTasks ! 1)) =
      Reply \<lparr>success = True, runId = Some (str ''run_1''), run_error = None\<rparr>
    \<and> success \<lparr>success = True, runId = Some (str ''run_1''), run_error = None\<rparr>"
    by simp
  from startTask_frame [of "str ''session_italy_1''" ?s ?srv ?now] f1 av ok
  obtain i where i: "i < length (tasks ?s)" "tasks ?s ! i = sampleTasks ! 1"
    "tasks (startTask ?srv ?now (str ''session_italy_1'') ?s) =
       (tasks ?s)[i := (sampleTasks ! 1)\<lparr>status := str ''in_progress'', last_updated := Some ?now\<rparr>]"
    by blast
  have "map task_id ((tasks ?s)[i := (tasks ?s ! i)\<lparr>status := str ''in_progress'',
      last_updated := Some ?now\<rparr>]) = map task_id (tasks ?s)"
    using i(1) by (intro map_list_update_same) simp_all
  with i have c1: "map task_id (tasks (startTask ?srv ?now (str ''session_italy_1'') ?s)) =
      map task_id sampleTasks"
    by (simp only: ts)
  from startTask_frame [of "str ''no_such_task''" ?s ?srv ?now] f2
  have "tasks (startTask ?srv ?now (str ''no_such_task'') ?s) = tasks ?s"
    by blast
  then have c2: "tasks (startTask ?srv ?now (str ''no_such_task'') ?s) = sampleTasks"
    by (simp only: ts)
  from f1 av c1 f2 c2 show ?thesis by (intro conjI)
qed

section \<open>The working directory\<close>

lemma trim_core:
  assumes "A \<noteq> []" "\<not> is_ws (hd A)" "\<not> is_ws (last A)"
  shows "trim (A @ y) = A @ rev (dropWhile is_ws (rev y))"
proof -
  from assms(1,2) have keep_front: "dropWhile is_ws (A @ y) = A @ y"
    by (cases A) simp_all
  from assms(1,3) have keep_back: "dropWhile is_ws (rev A) = rev A"
    by (cases "rev A") (simp_all add: last_rev [symmetric] del: last_rev)
  show ?thesis
  proof (cases "\<forall>c \<in> set (rev y). is_ws c")
    case True
    then have "dropWhile is_ws (rev y @ rev A) = rev A" "dropWhile is_ws (rev y) = []"
      using keep_back by (simp_all add: dropWhile_append)
    then show ?thesis by (simp add: trim_def keep_front)
  next
    case False
    then have "dropWhile is_ws (rev y @ rev A) = dropWhile is_ws (rev y) @ rev A"
      by (auto simp: dropWhile_append)
    then show ?thesis by (simp add: trim_def keep_front)
  qed
qed

lemma manual_command_eq:
  "manual_command t =
     str ''node ~/.claude/command-center/scripts/run-task.js '' @ [0x22] @
     escape_quotes (or_else (description t) (subject t)) @ [0x22] @ str '' --dir '' @ [0x22] @
     (if truthy (working_dir t) then the (working_dir t) else default_working_dir) @ [0x22] @
     rev (dropWhile is_ws (rev (str '' '' @
       (if truthy (assigned_skill t) then str ''--skill '' @ the (assigned_skill t) else []))))"
proof -
  let ?A = "str ''node ~/.claude/command-center/scripts/run-task.js '' @ [0x22] @
     escape_quotes (or_else (description t) (subject t)) @ [0x22] @ str '' --dir '' @ [0x22] @
     or_else (working_dir t) default_working_dir @ [0x22]"
  let ?y = "str '' '' @
       (if truthy (assigned_skill t) then str ''--skill '' @ template (assigned_skill t) else [])"
  have mc: "manual_command t = trim (?A @ ?y)"
    by (simp add: manual_command_def Let_def)
  have A: "?A \<noteq> []" "\<not> is_ws (hd ?A)" "\<not> is_ws (last ?A)"
    by (simp_all add: str_def is_ws_def)
  have wd: "or_else (working_dir t) default_working_dir =
      (if truthy (working_dir t) then the (working_dir t) else default_working_dir)"
    by (simp add: or_else_def truthy_def split: option.splits)
  have sk: "truthy (assigned_skill t) \<Longrightarrow> template (assigned_skill t) = the (assigned_skill t)"
    by (simp add: template_def truthy_def split: option.splits)
  show ?thesis
    unfolding mc trim_core [OF A] by (simp add: wd sk)
qed


lemma startTask_server_cong:
  "find (\<lambda>t. task_id t = taskId) (tasks s) = Some task \<Longrightarrow>
     server' (run_request_of task) = server (run_request_of task) \<Longrightarrow>
     startTask server' now taskId s = startTask server now taskId s"
  by (simp add: startTask_def)

lemma working_dir_update_first:
  "map working_dir (update_first p (\<lambda>t. t\<lparr>status := a, last_updated := b\<rparr>) ts) = map working_dir ts"
  by (induction ts) simp_all

lemma startTask_working_dir:
  "map working_dir (tasks (startTask server now taskId s)) = map working_dir (tasks s)"
  by (simp add: startTask_def Let_def working_dir_update_first showToast_def
        split: option.splits run_reply.splits)

text \<open>
  C4 (as amended). A form whose working directory is empty after trimming is rejected:
  \<open>saveNewTask\<close> only shows a toast (the warning that the working directory is required,
  when the title is there), and the task list, the stored drafts and the statistics stay as
  they were. When a task is started, the request and the manual command are built from the
  task: the outcome depends on the server only through its reply to that request, whose
  working directory is the task's \<open>working_dir\<close> when that is a non-empty string and the
  default directory (\<open>default_working_dir\<close>) otherwise; and when the server is not available,
  the command shown is \<open>node ~/.claude/command-center/scripts/run-task.js\<close>, the quoted
  description, \<open>--dir\<close> with that same directory in quotes, and the \<open>--skill\<close> option if a
  skill is assigned. The \<open>working_dir\<close> fields of the tasks are not changed by starting one.
\<close>

theorem working_dir_required_at_creation_defaulted_at_start:
  "(el_trimmed (workingDirEl f) = [] \<longrightarrow>
      (\<exists>t. saveNewTask clk f s = s\<lparr>toasts := toasts s @ [t]\<rparr>)
      \<and> (titleEl f \<noteq> None \<and> el_trimmed (titleEl f) \<noteq> [] \<longrightarrow>
           saveNewTask clk f s =
             showToast (str ''Working directory is required!'') (str ''warning'') s))
   \<and> (\<forall>task. find (\<lambda>t. task_id t = taskId) (tasks s) = Some task \<longrightarrow>
        (\<forall>server'. server' (run_request_of task) = server (run_request_of task) \<longrightarrow>
           startTask server' now taskId s = startTask server now taskId s)
        \<and> req_workingDir (run_request_of task) =
            (if truthy (working_dir task) then the (working_dir task) else default_working_dir)
        \<and> (\<not> serverAvailable s \<longrightarrow>
             run_modal (startTask server now taskId s) =
               Some (subject task,
                 str ''node ~/.claude/command-center/scripts/run-task.js '' @ [0x22] @
                 escape_quotes (or_else (description task) (subject task)) @ [0x22] @
                 str '' --dir '' @ [0x22] @
                 (if truthy (working_dir task) then the (working_dir task)
                  else default_working_dir) @ [0x22] @
                 rev (dropWhile is_ws (rev (str '' '' @
                   (if truthy (assigned_skill task)
                    then str ''--skill '' @ the (assigned_skill task) else [])))))))
   \<and> map working_dir (tasks (startTask server now taskId s)) = map working_dir (tasks s)"
proof -
  have p1: "el_trimmed (workingDirEl f) = [] \<longrightarrow>
      (\<exists>t. saveNewTask clk f s = s\<lparr>toasts := toasts s @ [t]\<rparr>)
      \<and> (titleEl f \<noteq> None \<and> el_trimmed (titleEl f) \<noteq> [] \<longrightarrow>
           saveNewTask clk f s =
             showToast (str ''Working directory is required!'') (str ''warning'') s)"
    by (auto simp: saveNewTask_def showToast_def)
  have p2: "\<forall>task. find (\<lambda>t. task_id t = taskId) (tasks s) = Some task \<longrightarrow>
        (\<forall>server'. server' (run_request_of task) = server (run_request_of task) \<longrightarrow>
           startTask server' now taskId s = startTask server now taskId s)
        \<and> req_workingDir (run_request_of task) =
            (if truthy (working_dir task) then the (working_dir task) else default_working_dir)
        \<and> (\<not> serverAvailable s \<longrightarrow>
             run_modal (startTask server now taskId s) =
               Some (subject task,
                 str ''node ~/.claude/command-center/scripts/run-task.js '' @ [0x22] @
                 escape_quotes (or_else (description task) (subject task)) @ [0x22] @
                 str '' --dir '' @ [0x22] @
                 (if truthy (working_dir task) then the (working_dir task)
                  else default_working_dir) @ [0x22] @
                 rev (dropWhile is_ws (rev (str '' '' @
                   (if truthy (assigned_skill task)
                    then str ''--skill '' @ the (assigned_skill task) else []))))))"
  proof (intro allI impI conjI)
    fix task server'
    assume found: "find (\<lambda>t. task_id t = taskId) (tasks s) = Some task"
    show "startTask server' now taskId s = startTask server now taskId s"
      if "server' (run_request_of task) = server (run_request_of task)"
      using found that by (rule startTask_server_cong)
    show "req_workingDir (run_request_of task) =
            (if truthy (working_dir task) then the (working_dir task) else default_working_dir)"
      by (simp add: run_request_of_def or_else_def truthy_def split: option.splits)
    assume "\<not> serverAvailable s"
    with found have "run_modal (startTask server now taskId s) =
        Some (subject task, manual_command task)"
      by (simp add: startTask_def)
    then show "run_modal (startTask server now taskId s) =
               Some (subject task,
                 str ''node ~/.claude/command-center/scripts/run-task.js '' @ [0x22] @
                 escape_quotes (or_else (description task) (subject task)) @ [0x22] @
                 str '' --dir '' @ [0x22] @
                 (if truthy (working_dir task) then the (working_dir task)
                  else default_working_dir) @ [0x22] @
                 rev (dropWhile is_ws (rev (str '' '' @
                   (if truthy (assigned_skill task)
                    then str ''--skill '' @ the (assigned_skill task) else [])))))"
      by (simp only: manual_command_eq)
  qed
  note p3 = startTask_working_dir [of server now taskId s]
  from p1 p2 p3 show ?thesis by (intro conjI)
qed

text \<open>
  C4 as stated fails in its second half: the second sample task has no \<open>working_dir\<close>, and
  the request sent for it names the default directory, as does the manual command. The
  server here answers with the working directory it was given as the run id, which the
  success toast then shows.
\<close>

theorem startTask_default_working_dir_counterexample:
  "working_dir (sampleTasks ! 1) = None
   \<and> req_workingDir (run_request_of (sampleTasks ! 1)) = default_working_dir
   \<and> manual_command (sampleTasks ! 1) =
       str ''node ~/.claude/command-center/scripts/run-task.js '' @ [0x22] @
       subject (sampleTasks ! 1) @ [0x22] @ str '' --dir '' @ [0x22] @ default_working_dir @ [0x22]
   \<and> toasts (startTask
         (\<lambda>r. Reply \<lparr>success = True, runId = Some (req_workingDir r), run_error = None\<rparr>)
         (str ''2026-01-30T10:00:00.000Z'') (str ''session_italy_1'')
         (initial_state\<lparr>tasks := sampleTasks, serverAvailable := True\<rparr>))
       = [\<lparr>message = str ''Starting task...'', toast_kind = str ''info''\<rparr>,
          \<lparr>message = str ''Task started! Run ID: '' @ default_working_dir,
            toast_kind = str ''success''\<rparr>]"
proof -
  have cmd: "manual_command (sampleTasks ! 1) =
       str ''node ~/.claude/command-center/scripts/run-task.js '' @ [0x22] @
       subject (sampleTasks ! 1) @ [0x22] @ str '' --dir '' @ [0x22] @ default_working_dir @ [0x22]"
  proof -
    have "rev (dropWhile is_ws (rev (str '' ''))) = []"
      by (simp add: str_def is_ws_def)
    then show ?thesis
      unfolding manual_command_eq
      by (simp add: sampleTasks_def truthy_def or_else_def escape_quotes_def)
  qed
  have rest: "working_dir (sampleTasks ! 1) = None
   \<and> req_workingDir (run_request_of (sampleTasks ! 1)) = default_working_dir
   \<and> toasts (startTask
         (\<lambda>r. Reply \<lparr>success = True, runId = Some (req_workingDir r), run_error = None\<rparr>)
         (str ''2026-01-30T10:00:00.000Z'') (str ''session_italy_1'')
         (initial_state\<lparr>tasks := sampleTasks, serverAvailable := True\<rparr>))
       = [\<lparr>message = str ''Starting task...'', toast_kind = str ''info''\<rparr>,
          \<lparr>message = str ''Task started! Run ID: '' @ default_working_dir,
            toast_kind = str ''success''\<rparr>]"
    by (simp add: startTask_def run_request_of_def or_else_def template_def showToast_def
          initial_state_def sampleTasks_def)
  from cmd rest show ?thesis by simp
qed


text \<open>
  An instance of C4: the example form with a working directory of three spaces is rejected;
  the request for the second sample task carries the default directory, and so does the
  command shown for it while the server is not available.
\<close>

theorem working_dir_required_at_creation_defaulted_at_start_witness:
  "el_trimmed (workingDirEl (example_form\<lparr>workingDirEl := Some (str ''   '')\<rparr>)) = []
   \<and> saveNewTask example_clock (example_form\<lparr>workingDirEl := Some (str ''   '')\<rparr>)
         (initial_state\<lparr>tasks := sampleTasks\<rparr>)
       = showToast (str ''Working directory is required!'') (str ''warning'')
           (initial_state\<lparr>tasks := sampleTasks\<rparr>)
   \<and> find (\<lambda>t. task_id t = str ''session_italy_1'') (tasks (initial_state\<lparr>tasks := sampleTasks\<rparr>))
       = Some (sampleTasks ! 1)
   \<and> req_workingDir (run_request_of (sampleTasks ! 1)) = default_working_dir
   \<and> \<not> serverAvailable (initial_state\<lparr>tasks := sampleTasks\<rparr>)
   \<and> run_modal (startTask (\<lambda>r. Throws []) [] (str ''session_italy_1'')
         (initial_state\<lparr>tasks := sampleTasks\<rparr>)) =
       Some (subject (sampleTasks ! 1),
             str ''node ~/.claude/command-center/scripts/run-task.js '' @ [0x22] @
             subject (sampleTasks ! 1) @ [0x22] @ str '' --dir '' @ [0x22] @
             default_working_dir @ [0x22])"
proof -
  let ?f = "example_form\<lparr>workingDirEl := Some (str ''   '')\<rparr>"
  let ?s = "initial_state\<lparr>tasks := sampleTasks\<rparr>"
  have h1: "el_trimmed (workingDirEl ?f) = []"
    by (simp add: el_trimmed_def trim_def is_ws_def str_def)
  have h2: "titleEl ?f \<noteq> None \<and> el_trimmed (titleEl ?f) \<noteq> []"
    using example_form_ok(1,2) by simp
  have h3: "find (\<lambda>t. task_id t = str ''session_italy_1'') (tasks ?s) = Some (sampleTasks ! 1)"
    by (simp add: sampleTasks_def)
  have h4: "\<not> truthy (working_dir (sampleTasks ! 1))"
    by (simp add: sampleTasks_def truthy_def)
  note inst = working_dir_required_at_creation_defaulted_at_start
    [of ?f example_clock ?s "str ''session_italy_1''" "\<lambda>r. Throws []" "[]"]
  note created = inst [THEN conjunct1, rule_format, OF h1]
  note started = inst [THEN conjunct2, THEN conjunct1, rule_format, OF h3]
  from created h2 have c1: "saveNewTask example_clock ?f ?s =
      showToast (str ''Working directory is required!'') (str ''warning'') ?s"
    by simp
  have "req_workingDir (run_request_of (sampleTasks ! 1)) =
      (if truthy (working_dir (sampleTasks ! 1)) then the (working_dir (sampleTasks ! 1))
       else default_working_dir)"
    by (rule started [THEN conjunct2, THEN conjunct1])
  with h4 have c2: "req_workingDir (run_request_of (sampleTasks ! 1)) = default_working_dir"
    by simp
  have h5: "\<not> serverAvailable ?s" by (simp add: initial_state_def)
  have h6: "\<not> truthy (assigned_skill (sampleTasks ! 1))"
    "or_else (description (sampleTasks ! 1)) (subject (sampleTasks ! 1)) = subject (sampleTasks ! 1)"
    by (simp_all add: sampleTasks_def truthy_def or_else_def)
  have h7: "escape_quotes (subject (sampleTasks ! 1)) = subject (sampleTasks ! 1)"
    by (simp add: sampleTasks_def escape_quotes_def)
  have h8: "rev (dropWhile is_ws (rev (str '' ''))) = []"
    by (simp add: str_def is_ws_def)
  have "run_modal (startTask (\<lambda>r. Throws []) [] (str ''session_italy_1'') ?s) =
      Some (subject (sampleTasks ! 1),
        str ''node ~/.claude/command-center/scripts/run-task.js '' @ [0x22] @
        escape_quotes (or_else (description (sampleTasks ! 1)) (subject (sampleTasks ! 1))) @ [0x22] @
        str '' --dir '' @ [0x22] @
        (if truthy (working_dir (sampleTasks ! 1)) then the (working_dir (sampleTasks ! 1))
         else default_working_dir) @ [0x22] @
        rev (dropWhile is_ws (rev (str '' '' @
          (if truthy (assigned_skill (sampleTasks ! 1))
           then str ''--skill '' @ the (assigned_skill (sampleTasks ! 1)) else [])))))"
    by (rule started [THEN conjunct2, THEN conjunct2, rule_format, OF h5])
  then have c3: "run_modal (startTask (\<lambda>r. Throws []) [] (str ''session_italy_1'') ?s) =
       Some (subject (sampleTasks ! 1),
             str ''node ~/.claude/command-center/scripts/run-task.js '' @ [0x22] @
             subject (sampleTasks ! 1) @ [0x22] @ str '' --dir '' @ [0x22] @
             default_working_dir @ [0x22])"
    by (simp only: h4 h6 h7 h8 if_False append_Nil2)
  from h1 c1 h3 c2 h5 c3 show ?thesis by (intro conjI)
qed

section \<open>Loading the registry\<close>

text \<open>
  Under a signal every \<open>await\<close> returns, at the deadline at the latest; without one, a
  promise that never settles is awaited forever.
\<close>

lemma await_without_signal_hangs: "await_signal None t0 Never = None"
  by (simp add: await_signal_def)

lemma await_signal_deadline:
  "\<exists>t r. await_signal (Some T) t0 p = Some (t, r) \<and> t \<le> T"
  by (cases p) (simp_all add: await_signal_def)

lemma await_in_try_bounded:
  assumes "\<exists>t r. a = Some (t, r) \<and> t \<le> T"
    and "\<And>t v. a = Some (t, Inr v) \<Longrightarrow> \<exists>t' r'. k t v = Some (t', r') \<and> t' \<le> T"
  shows "\<exists>t r. await_in_try a s k = Some (t, r) \<and> t \<le> T"
proof -
  from assms(1) obtain t r where a: "a = Some (t, r)" "t \<le> T" by blast
  show ?thesis
  proof (cases r)
    case (Inl e)
    with a show ?thesis by (simp add: await_in_try_def)
  next
    case (Inr v)
    with a assms(2) [of t v] show ?thesis by (simp add: await_in_try_def)
  qed
qed

lemma load_try_bounded:
  "\<exists>t r. load_try lower env s = Some (t, r) \<and> t \<le> loadTimeoutMs"
  unfolding load_try_def
proof (rule await_in_try_bounded [OF await_signal_deadline], goal_cases)
  case (1 t1 r1)
  show ?case
  proof (cases r1)
    case NetworkError
    with 1 await_signal_deadline [of loadTimeoutMs 0 "fetch_data env"] show ?thesis by auto
  next
    case (Response ok1 body1)
    have t1: "t1 \<le> loadTimeoutMs"
      using 1 await_signal_deadline [of loadTimeoutMs 0 "fetch_data env"] by auto
    have second: "\<exists>t r. (if \<not> ok1 then await_signal (Some loadTimeoutMs) t1 (fetch_parent env)
                 else Some (t1, Inr (Response ok1 body1))) = Some (t, r) \<and> t \<le> loadTimeoutMs"
      using t1 await_signal_deadline [of loadTimeoutMs t1 "fetch_parent env"] by auto
    show ?thesis
      unfolding Response fetch_result.case
    proof (rule await_in_try_bounded [OF second], goal_cases)
      case (1 t2 r2)
      have t2: "t2 \<le> loadTimeoutMs"
        using 1 t1 await_signal_deadline [of loadTimeoutMs t1 "fetch_parent env"]
        by (auto split: if_splits)
      show ?case
      proof (cases r2)
        case NetworkError
        with t2 show ?thesis by simp
      next
        case (Response ok b)
        show ?thesis
        proof (cases ok)
          case False
          with Response t2 show ?thesis by simp
        next
          case True
          have "\<exists>t r. await_in_try (await_signal (Some loadTimeoutMs) t2 b) s
                              (\<lambda>t3 parsed.
                                 case parsed of
                                   Malformed \<Rightarrow> Some (t3, Inl (OtherError, s))
                                 | JsonNull \<Rightarrow> Some (t3, Inl (OtherError, s))
                                 | JsonData d \<Rightarrow> Some (t3, show_registry lower d s)) = Some (t, r)
              \<and> t \<le> loadTimeoutMs"
          proof (rule await_in_try_bounded [OF await_signal_deadline], goal_cases)
            case (1 t3 v)
            have "t3 \<le> loadTimeoutMs"
              using 1 await_signal_deadline [of loadTimeoutMs t2 b] by auto
            then show ?case by (cases v) simp_all
          qed
          with Response True show ?thesis by simp
        qed
      qed
    qed
  qed
qed

lemma filterTasks_subset: "set (filterTasks lower fl ts) \<subseteq> set ts"
  by (auto simp: filterTasks_def)

lemma sample_keys_not_inherited:
  "\<forall>t \<in> set sampleTasks. \<not> inherited (session_key t)
      \<and> \<not> inherited (or_else (Some (source t)) (str ''other''))"
  by (simp add: sampleTasks_def session_key_def or_else_def inherited_def object_prototype_keys_def)

lemma renderTasks_sample: "tasks s = sampleTasks \<Longrightarrow> renderTasks lower s = Inr s"
  using sample_keys_not_inherited filterTasks_subset [of lower "state_filters s" sampleTasks]
  by (auto simp: renderTasks_def Let_def groupTasksBySession_throws_def
        groupTasksBySource_throws_def)

lemma loadSampleData_shows_sample:
  "loadSampleData lower s =
     Inr (s\<lparr>tasks := sampleTasks,
            shown := \<lparr>el_totalTasks = 3, el_pendingTasks = 1, el_failedTasks = 1,
                      el_completedTasks = 1, banner_warning = True\<rparr>\<rparr>)"
  by (simp add: loadSampleData_def renderTasks_sample updateStatistics_def)


lemma loadTasks_caught:
  "load_try lower env s = Some (t, Inl (e, s1)) \<Longrightarrow>
     loadTasks lower env s =
       Some (t, Inr (s1\<lparr>toasts := toasts s1 @
                         [\<lparr>message = (if e = AbortError then load_timeout_message
                                       else load_error_message),
                           toast_kind = (if e = AbortError then str ''warning''
                                         else str ''error'')\<rparr>],
                       tasks := sampleTasks,
                       shown := \<lparr>el_totalTasks = 3, el_pendingTasks = 1, el_failedTasks = 1,
                                 el_completedTasks = 1, banner_warning = True\<rparr>\<rparr>))"
  by (simp add: loadTasks_def loadSampleData_shows_sample showToast_def)

lemma loadTasks_loaded:
  "load_try lower env s = Some (t, Inr s') \<Longrightarrow> loadTasks lower env s = Some (t, Inr s')"
  by (simp add: loadTasks_def)

text \<open>
  C7. The timer of \<open>loadTasks\<close> is set to ten seconds, and the call always completes: whatever
  the two requests and the body do, also when one of them never settles, \<open>loadTasks\<close>
  returns a state, lets no exception out, and its last \<open>await\<close> has returned no later than
  \<open>loadTimeoutMs\<close> after the timer was set. Whenever its \<open>try\<close> block throws, the result is
  the state at the throw with one more toast (the timeout warning after an abort, the error
  message otherwise), with the three sample tasks as the task list and with the counters of
  the sample view. The \<open>try\<close> block throws an \<open>AbortError\<close> at the timeout when a request or
  the body read has not settled before it, and another error when a request fails on the
  network, when neither response is OK, and when the body read is malformed or \<open>null\<close>. When
  the \<open>try\<close> block does not throw, the state it reaches is the result.
\<close>

theorem loadTasks_fails_soft:
  "loadTimeoutMs = 10 * 1000
   \<and> (\<exists>t s'. loadTasks lower env s = Some (t, Inr s') \<and> t \<le> loadTimeoutMs)
   \<and> (\<forall>t e s1. load_try lower env s = Some (t, Inl (e, s1)) \<longrightarrow>
         loadTasks lower env s =
           Some (t, Inr (s1\<lparr>toasts := toasts s1 @
                             [\<lparr>message = (if e = AbortError then load_timeout_message
                                           else load_error_message),
                               toast_kind = (if e = AbortError then str ''warning''
                                             else str ''error'')\<rparr>],
                           tasks := sampleTasks,
                           shown := \<lparr>el_totalTasks = 3, el_pendingTasks = 1, el_failedTasks = 1,
                                     el_completedTasks = 1, banner_warning = True\<rparr>\<rparr>)))
   \<and> length sampleTasks = 3
   \<and> (\<forall>t s'. load_try lower env s = Some (t, Inr s') \<longrightarrow>
         loadTasks lower env s = Some (t, Inr s'))
   \<and> (fetch_data env = Never \<or> (fetch_data env = After d r \<and> loadTimeoutMs \<le> d) \<longrightarrow>
         load_try lower env s = Some (loadTimeoutMs, Inl (AbortError, s)))
   \<and> (fetch_data env = After d NetworkError \<and> d < loadTimeoutMs \<longrightarrow>
         load_try lower env s = Some (d, Inl (OtherError, s)))
   \<and> (fetch_data env = After d (Response False b) \<and> d < loadTimeoutMs \<longrightarrow>
         (fetch_parent env = Never \<or> (fetch_parent env = After d' r' \<and> loadTimeoutMs \<le> d + d') \<longrightarrow>
            load_try lower env s = Some (loadTimeoutMs, Inl (AbortError, s)))
       \<and> (d + d' < loadTimeoutMs \<and>
            (fetch_parent env = After d' NetworkError \<or> fetch_parent env = After d' (Response False b'))
            \<longrightarrow> load_try lower env s = Some (d + d', Inl (OtherError, s)))
       \<and> (fetch_parent env = After d' (Response True bd) \<and> d + d' < loadTimeoutMs \<longrightarrow>
            (bd = Never \<or> (bd = After d2 x \<and> loadTimeoutMs \<le> d + d' + d2) \<longrightarrow>
               load_try lower env s = Some (loadTimeoutMs, Inl (AbortError, s)))
          \<and> (d + d' + d2 < loadTimeoutMs \<and> (bd = After d2 Malformed \<or> bd = After d2 JsonNull)
               \<longrightarrow> load_try lower env s = Some (d + d' + d2, Inl (OtherError, s)))))
   \<and> (fetch_data env = After d (Response True bd) \<and> d < loadTimeoutMs \<longrightarrow>
         (bd = Never \<or> (bd = After d2 x \<and> loadTimeoutMs \<le> d + d2) \<longrightarrow>
            load_try lower env s = Some (loadTimeoutMs, Inl (AbortError, s)))
       \<and> (d + d2 < loadTimeoutMs \<and> (bd = After d2 Malformed \<or> bd = After d2 JsonNull)
            \<longrightarrow> load_try lower env s = Some (d + d2, Inl (OtherError, s))))"
proof -
  have c1: "loadTimeoutMs = 10 * 1000" by (simp add: loadTimeoutMs_def)
  have c2: "\<exists>t s'. loadTasks lower env s = Some (t, Inr s') \<and> t \<le> loadTimeoutMs"
  proof -
    from load_try_bounded [of lower env s] obtain t r where
      tr: "load_try lower env s = Some (t, r)" "t \<le> loadTimeoutMs" by blast
    show ?thesis
    proof (cases r)
      case (Inl es)
      obtain e s1 where "es = (e, s1)" by (cases es)
      with tr Inl loadTasks_caught [of lower env s t e s1] show ?thesis by simp
    next
      case (Inr s')
      with tr loadTasks_loaded [of lower env s t s'] show ?thesis by simp
    qed
  qed
  have c4: "length sampleTasks = 3" by (simp add: sampleTasks_def)
  have f1: "fetch_data env = Never \<or> (fetch_data env = After d r \<and> loadTimeoutMs \<le> d) \<longrightarrow>
         load_try lower env s = Some (loadTimeoutMs, Inl (AbortError, s))"
    by (auto simp: load_try_def await_in_try_def await_signal_def)
  have f2: "fetch_data env = After d NetworkError \<and> d < loadTimeoutMs \<longrightarrow>
         load_try lower env s = Some (d, Inl (OtherError, s))"
    by (auto simp: load_try_def await_in_try_def await_signal_def)
  have f3: "fetch_data env = After d (Response False b) \<and> d < loadTimeoutMs \<longrightarrow>
         (fetch_parent env = Never \<or> (fetch_parent env = After d' r' \<and> loadTimeoutMs \<le> d + d') \<longrightarrow>
            load_try lower env s = Some (loadTimeoutMs, Inl (AbortError, s)))
       \<and> (d + d' < loadTimeoutMs \<and>
            (fetch_parent env = After d' NetworkError \<or> fetch_parent env = After d' (Response False b'))
            \<longrightarrow> load_try lower env s = Some (d + d', Inl (OtherError, s)))
       \<and> (fetch_parent env = After d' (Response True bd) \<and> d + d' < loadTimeoutMs \<longrightarrow>
            (bd = Never \<or> (bd = After d2 x \<and> loadTimeoutMs \<le> d + d' + d2) \<longrightarrow>
               load_try lower env s = Some (loadTimeoutMs, Inl (AbortError, s)))
          \<and> (d + d' + d2 < loadTimeoutMs \<and> (bd = After d2 Malformed \<or> bd = After d2 JsonNull)
               \<longrightarrow> load_try lower env s = Some (d + d' + d2, Inl (OtherError, s))))"
    by (auto simp: load_try_def await_in_try_def await_signal_def)
  have f4: "fetch_data env = After d (Response True bd) \<and> d < loadTimeoutMs \<longrightarrow>
         (bd = Never \<or> (bd = After d2 x \<and> loadTimeoutMs \<le> d + d2) \<longrightarrow>
            load_try lower env s = Some (loadTimeoutMs, Inl (AbortError, s)))
       \<and> (d + d2 < loadTimeoutMs \<and> (bd = After d2 Malformed \<or> bd = After d2 JsonNull)
            \<longrightarrow> load_try lower env s = Some (d + d2, Inl (OtherError, s)))"
    by (auto simp: load_try_def await_in_try_def await_signal_def)
  have c3: "\<forall>t e s1. load_try lower env s = Some (t, Inl (e, s1)) \<longrightarrow>
         loadTasks lower env s =
           Some (t, Inr (s1\<lparr>toasts := toasts s1 @
                             [\<lparr>message = (if e = AbortError then load_timeout_message
                                           else load_error_message),
                               toast_kind = (if e = AbortError then str ''warning''
                                             else str ''error'')\<rparr>],
                           tasks := sampleTasks,
                           shown := \<lparr>el_totalTasks = 3, el_pendingTasks = 1, el_failedTasks = 1,
                                     el_completedTasks = 1, banner_warning = True\<rparr>\<rparr>))"
    by (intro allI impI) (rule loadTasks_caught)
  have c5: "\<forall>t s'. load_try lower env s = Some (t, Inr s') \<longrightarrow>
         loadTasks lower env s = Some (t, Inr s')"
    by (intro allI impI) (rule loadTasks_loaded)
  from c1 c2 c3 c4 c5 f1 f2 f3 f4 show ?thesis by (intro conjI)
qed


text \<open>
  Two instances of C7 from the page's initial state: a first request that never settles,
  which ends at the timeout with the warning, and a first response that is not OK followed
  by a second one whose body is malformed, which ends after 600 ms with the error message.
\<close>

theorem loadTasks_fails_soft_witness:
  "fetch_data \<lparr>fetch_data = Never, fetch_parent = Never\<rparr> = Never
   \<and> loadTasks (map to_lower_ascii) \<lparr>fetch_data = Never, fetch_parent = Never\<rparr> initial_state =
       Some (loadTimeoutMs,
             Inr (initial_state\<lparr>toasts := toasts initial_state @
                     [\<lparr>message = load_timeout_message, toast_kind = str ''warning''\<rparr>],
                   tasks := sampleTasks,
                   shown := \<lparr>el_totalTasks = 3, el_pendingTasks = 1, el_failedTasks = 1,
                             el_completedTasks = 1, banner_warning = True\<rparr>\<rparr>))
   \<and> fetch_data \<lparr>fetch_data = After 200 (Response False Never),
                  fetch_parent = After 300 (Response True (After 100 Malformed))\<rparr>
       = After 200 (Response False Never)
   \<and> fetch_parent \<lparr>fetch_data = After 200 (Response False Never),
                    fetch_parent = After 300 (Response True (After 100 Malformed))\<rparr>
       = After 300 (Response True (After 100 Malformed))
   \<and> 200 + 300 + 100 < loadTimeoutMs
   \<and> loadTasks (map to_lower_ascii)
         \<lparr>fetch_data = After 200 (Response False Never),
          fetch_parent = After 300 (Response True (After 100 Malformed))\<rparr> initial_state =
       Some (600,
             Inr (initial_state\<lparr>toasts := toasts initial_state @
                     [\<lparr>message = load_error_message, toast_kind = str ''error''\<rparr>],
                   tasks := sampleTasks,
                   shown := \<lparr>el_totalTasks = 3, el_pendingTasks = 1, el_failedTasks = 1,
                             el_completedTasks = 1, banner_warning = True\<rparr>\<rparr>))"
proof -
  let ?e1 = "\<lparr>fetch_data = Never, fetch_parent = Never\<rparr>"
  let ?e2 = "\<lparr>fetch_data = After 200 (Response False Never),
              fetch_parent = After 300 (Response True (After 100 Malformed))\<rparr>"
  let ?lower = "map to_lower_ascii"
  have h1: "fetch_data ?e1 = Never" by simp
  have h2: "fetch_data ?e2 = After 200 (Response False Never)"
    "fetch_parent ?e2 = After 300 (Response True (After 100 Malformed))" by simp_all
  have lt: "(200::nat) < loadTimeoutMs" "(200::nat) + 300 < loadTimeoutMs"
    "(200::nat) + 300 + 100 < loadTimeoutMs"
    by (simp_all add: loadTimeoutMs_def)
  note i1 = loadTasks_fails_soft [of ?lower ?e1 initial_state]
  from i1 h1 have t1: "load_try ?lower ?e1 initial_state =
      Some (loadTimeoutMs, Inl (AbortError, initial_state))"
    by blast
  from i1 t1 have c1: "loadTasks ?lower ?e1 initial_state =
       Some (loadTimeoutMs,
             Inr (initial_state\<lparr>toasts := toasts initial_state @
                     [\<lparr>message = (if AbortError = AbortError then load_timeout_message
                                   else load_error_message),
                       toast_kind = (if AbortError = AbortError then str ''warning''
                                     else str ''error'')\<rparr>],
                   tasks := sampleTasks,
                   shown := \<lparr>el_totalTasks = 3, el_pendingTasks = 1, el_failedTasks = 1,
                             el_completedTasks = 1, banner_warning = True\<rparr>\<rparr>))"
    by blast
  note i2 = loadTasks_fails_soft
    [of ?lower ?e2 initial_state 200 _ Never 300 _ _ "After 100 Malformed" 100]
  from i2 h2 lt have t2: "load_try ?lower ?e2 initial_state =
      Some (200 + 300 + 100, Inl (OtherError, initial_state))"
    by blast
  from i2 t2 have c2: "loadTasks ?lower ?e2 initial_state =
       Some (200 + 300 + 100,
             Inr (initial_state\<lparr>toasts := toasts initial_state @
                     [\<lparr>message = (if OtherError = AbortError then load_timeout_message
                                   else load_error_message),
                       toast_kind = (if OtherError = AbortError then str ''warning''
                                     else str ''error'')\<rparr>],
                   tasks := sampleTasks,
                   shown := \<lparr>el_totalTasks = 3, el_pendingTasks = 1, el_failedTasks = 1,
                             el_completedTasks = 1, banner_warning = True\<rparr>\<rparr>))"
    by blast
  from c1 have c1': "loadTasks ?lower ?e1 initial_state =
       Some (loadTimeoutMs,
             Inr (initial_state\<lparr>toasts := toasts initial_state @
                     [\<lparr>message = load_timeout_message, toast_kind = str ''warning''\<rparr>],
                   tasks := sampleTasks,
                   shown := \<lparr>el_totalTasks = 3, el_pendingTasks = 1, el_failedTasks = 1,
                             el_completedTasks = 1, banner_warning = True\<rparr>\<rparr>))"
    by simp
  from c2 have c2': "loadTasks ?lower ?e2 initial_state =
       Some (600,
             Inr (initial_state\<lparr>toasts := toasts initial_state @
                     [\<lparr>message = load_error_message, toast_kind = str ''error''\<rparr>],
                   tasks := sampleTasks,
                   shown := \<lparr>el_totalTasks = 3, el_pendingTasks = 1, el_failedTasks = 1,
                             el_completedTasks = 1, banner_warning = True\<rparr>\<rparr>))"
    by simp
  from h1 c1' h2 lt(3) c2' show ?thesis by (intro conjI)
qed

text \<open>
  The \<open>try\<close> block can also throw after the registry is parsed, while rendering: here a
  registry whose only task has the project \<open>constructor\<close> is grouped under a key that the
  groups object inherits. By the theorem above the sample view is shown in that case too.
\<close>

lemma load_try_parsed:
  "fetch_data env = After d (Response True (After d2 (JsonData reg))) \<Longrightarrow>
     d + d2 < loadTimeoutMs \<Longrightarrow>
     load_try lower env s = Some (d + d2, show_registry lower reg s)"
  by (auto simp: load_try_def await_in_try_def await_signal_def)

lemma show_registry_render_throws:
  "show_registry lower
     \<lparr>reg_tasks = Some [(sampleTasks ! 1)\<lparr>project := Some (str ''constructor'')\<rparr>],
      reg_statistics = None, last_aggregated = None\<rparr> initial_state =
   Inl (OtherError,
        initial_state\<lparr>tasks := [(sampleTasks ! 1)\<lparr>project := Some (str ''constructor'')\<rparr>]\<rparr>)"
  by (simp add: show_registry_def loadTaskAssignments_def loadPendingLocalTasks_def parse_item_def
        apply_assignment_def Let_def
        updateStatistics_def truthy_def renderTasks_def filterTasks_def
        groupTasksBySession_throws_def session_key_def or_else_def inherited_def
        object_prototype_keys_def initial_state_def sampleTasks_def)

section \<open>Display lookups\<close>

lemma inherited_constructor: "inherited (str ''constructor'')"
  by (simp add: inherited_def object_prototype_keys_def)

text \<open>
  C10. The lookups fall back as the claim says for an unknown status such as \<open>cancelled\<close>
  and for \<open>undefined\<close>, but not for every string: for \<open>constructor\<close>, a name that the
  table inherits from \<open>Object.prototype\<close>, \<open>statuses[status]\<close> and \<open>sources[source]\<close> are
  that inherited member, which is truthy, so it is returned in place of a display record.
\<close>

theorem display_lookup_inherited_key:
  "getStatusInfo (Some (str ''constructor'')) = FromPrototype (str ''constructor'')
   \<and> getSourceInfo (Some (str ''constructor'')) = FromPrototype (str ''constructor'')
   \<and> getStatusInfo (Some (str ''cancelled'')) = getStatusInfo (Some (str ''pending''))
   \<and> getStatusInfo None = getStatusInfo (Some (str ''pending''))"
  by (simp add: getStatusInfo_def getSourceInfo_def get_property_def property_key_def
        statuses_def sources_def inherited_def object_prototype_keys_def)

text \<open>
  For every key that is not inherited, \<open>undefined\<close> included, both lookups return a display
  record: the \<open>pending\<close> record for a status that is not in the table, and a record echoing
  the input for a source that is not in the table.
\<close>

lemma display_lookup_ordinary_key:
  assumes "\<not> inherited (property_key k)"
  shows "(\<exists>r. getStatusInfo k = Own r)"
    and "property_key k \<notin> dom statuses \<Longrightarrow> getStatusInfo k = getStatusInfo (Some (str ''pending''))"
    and "(\<exists>r. getSourceInfo k = Own r)"
    and "property_key k \<notin> dom sources \<Longrightarrow>
           getSourceInfo k = Own \<lparr>so_text = k, so_icon = [0xD83D, 0xDCC4]\<rparr>"
proof -
  have p: "statuses (str ''pending'') \<noteq> None" by (simp add: statuses_def)
  show "\<exists>r. getStatusInfo k = Own r"
    using assms p by (auto simp: getStatusInfo_def get_property_def split: option.splits)
  show "getStatusInfo k = getStatusInfo (Some (str ''pending''))" if "property_key k \<notin> dom statuses"
    using assms that p
    by (auto simp: getStatusInfo_def get_property_def property_key_def dom_def split: option.splits)
  show "\<exists>r. getSourceInfo k = Own r"
    using assms by (auto simp: getSourceInfo_def get_property_def split: option.splits)
  show "getSourceInfo k = Own \<lparr>so_text = k, so_icon = [0xD83D, 0xDCC4]\<rparr>"
    if "property_key k \<notin> dom sources"
    using assms that by (auto simp: getSourceInfo_def get_property_def dom_def split: option.splits)
qed

end
